theory Spec2Isabelle
  imports Main "HOL-Library.Word" "HOL-Library.Sublist" "HOL-Library.Stream"
begin

section \<open>Data model of request.go\<close>

type_synonym byte = "8 word"

text \<open>Go's \<open>error\<close> values that come from collaborators (dialer, resolver, sockets,
  writers) are modelled by their message text, the only thing request.go reads of them.\<close>

type_synonym errmsg = string

text \<open>Modelled from the spec: the type \<open>AddrSpec\<close> is declared outside src/; request.go
  uses its fields \<open>FQDN\<close>, \<open>IP\<close> (a \<open>net.IP\<close>, a byte slice) and \<open>Port\<close> (a Go \<open>int\<close>).\<close>

record AddrSpec =
  FQDN :: string
  IP :: "byte list"
  Port :: int

text \<open>Modelled from the spec: the type \<open>Header\<close> is declared outside src/; section 3 and
  the wire format of section 6 give it a version, the command byte, the reserved byte, the
  address type and the address with its port.\<close>

record Header =
  Version :: byte
  Command :: byte
  Reserved :: byte
  addrType :: byte
  Address :: AddrSpec

text \<open>Modelled from the spec: the constants of section 6 (declared outside src/).\<close>

definition CommandConnect :: byte where "CommandConnect = 1"
definition CommandBind :: byte where "CommandBind = 2"
definition CommandAssociate :: byte where "CommandAssociate = 3"

definition ATYPIPv4 :: byte where "ATYPIPv4 = 1"
definition ATYPDomain :: byte where "ATYPDomain = 3"
definition ATYPIPV6 :: byte where "ATYPIPV6 = 4"

text \<open>The reply status constants \<open>RepSuccess\<close>, ... are declared outside src/ and the spec
  names them without giving their values: the names are a datatype, and the byte each one
  stands for is a parameter (\<open>code\<close>) of every function that sends a reply.\<close>

datatype reply =
    RepSuccess
  | RepServerFailure
  | RepRuleFailure
  | RepNetworkUnreachable
  | RepHostUnreachable
  | RepConnectionRefused
  | RepCommandNotSupported

text \<open>A \<open>net.Addr\<close> interface value: a \<open>*net.TCPAddr\<close> or a \<open>*net.UDPAddr\<close> (either may
  be a nil pointer inside a non-nil interface), a value of some other concrete type, of
  which only the network name and the string form exist, or the nil interface.\<close>

record IPAddr =
  addrIP :: "byte list"
  addrPort :: int

datatype net_Addr =
    TCPAddr "IPAddr option"
  | UDPAddr "IPAddr option"
  | OtherAddr string string
  | NilAddr

text \<open>Errors request.go creates itself, one constructor for each \<open>fmt.Errorf\<close> site
  (the arguments are the values formatted into the message); \<open>External\<close> is an error
  of a collaborator passed through unchanged.\<close>

datatype error =
    External errmsg
  | UnrecognizedCommand byte
  | FailedToFormatAddress "net_Addr list"
  | FailedToSendReply error
  | FailedToSendReplyBind error
  | FailedToResolve string errmsg
  | BlockedByRules "AddrSpec option"
  | UnsupportedCommand byte
  | ConnectFailed "AddrSpec option" errmsg
  | DialUdpInvalid
  | ListenUdpFailed errmsg

text \<open>What a call of a handler ends with: it returns its \<open>error\<close> (\<open>None\<close> for nil), or
  it panics on a nil pointer.\<close>

datatype outcome = Return "error option" | Panic

text \<open>Errors of readers and of \<open>io.CopyBuffer\<close>: the sentinels of package \<open>io\<close>, which
  the library compares by identity, and any other error with its message.\<close>

datatype ioerr = EOF | ErrShortWrite | ErrInvalidWrite | IOError errmsg

fun Error :: "ioerr \<Rightarrow> errmsg" where
  "Error EOF = ''EOF''"
| "Error ErrShortWrite = ''short write''"
| "Error ErrInvalidWrite = ''invalid write result''"
| "Error (IOError msg) = msg"

text \<open>An \<open>io.Reader\<close> is the sequence of the results of its future \<open>Read\<close> calls: the
  bytes read and the error.\<close>

type_synonym Reader = "(byte list \<times> ioerr option) stream"

subsection \<open>Library functions of Go used by request.go\<close>

text \<open>\<open>strings.Contains(s, substr)\<close>: whether \<open>substr\<close> occurs in \<open>s\<close>.\<close>

fun Contains :: "string \<Rightarrow> string \<Rightarrow> bool" where
  "Contains [] substr = (substr = [])"
| "Contains (c # cs) substr = (prefix substr (c # cs) \<or> Contains cs substr)"

text \<open>\<open>net.IP.To4\<close>: the 4-byte form of an address, \<open>None\<close> for Go's nil.\<close>

definition v4InV6Prefix :: "byte list" where
  "v4InV6Prefix = [0, 0, 0, 0, 0, 0, 0, 0, 0, 0, 0xff, 0xff]"

definition To4 :: "byte list \<Rightarrow> byte list option" where
  "To4 ip =
     (if length ip = 4 then Some ip
      else if length ip = 16 \<and> take 12 ip = v4InV6Prefix then Some (drop 12 ip)
      else None)"

text \<open>\<open>net.IP.To16\<close>: the 16-byte form of an address, \<open>None\<close> for Go's nil.\<close>

definition To16 :: "byte list \<Rightarrow> byte list option" where
  "To16 ip =
     (if length ip = 4 then Some (v4InV6Prefix @ ip)
      else if length ip = 16 then Some ip
      else None)"

section \<open>SendReply\<close>

text \<open>An \<open>io.Writer\<close>: the error (if any) with which \<open>Write\<close> answers the bytes given.\<close>

type_synonym Writer = "byte list \<Rightarrow> errmsg option"

text \<open>Lines 335-345 of SendReply: the address spec built from the first bound address.\<close>

definition bindAddrSpec :: "net_Addr \<Rightarrow> AddrSpec" where
  "bindAddrSpec a =
     (case a of
        TCPAddr (Some tcpAddr) \<Rightarrow> \<lparr>FQDN = [], IP = addrIP tcpAddr, Port = addrPort tcpAddr\<rparr>
      | UDPAddr (Some udpAddr) \<Rightarrow> \<lparr>FQDN = [], IP = addrIP udpAddr, Port = addrPort udpAddr\<rparr>
      | _ \<Rightarrow> \<lparr>FQDN = [], IP = [0, 0, 0, 0], Port = 0\<rparr>)"

text \<open>Lines 346-361 of SendReply: the \<open>switch\<close> that writes the address spec into the
  header, or fails.\<close>

definition setBindAddr :: "net_Addr list \<Rightarrow> Header \<Rightarrow> AddrSpec \<Rightarrow> error + Header" where
  "setBindAddr bindAddr head addrSpec =
     (if FQDN addrSpec \<noteq> [] then
        Inr (head\<lparr>addrType := ATYPDomain,
                  Address := (Address head)\<lparr>FQDN := FQDN addrSpec, Port := Port addrSpec\<rparr>\<rparr>)
      else case To4 (IP addrSpec) of
        Some four \<Rightarrow>
          Inr (head\<lparr>addrType := ATYPIPv4,
                    Address := (Address head)\<lparr>IP := four, Port := Port addrSpec\<rparr>\<rparr>)
      | None \<Rightarrow>
         (case To16 (IP addrSpec) of
            Some sixteen \<Rightarrow>
              Inr (head\<lparr>addrType := ATYPIPV6,
                        Address := (Address head)\<lparr>IP := sixteen, Port := Port addrSpec\<rparr>\<rparr>)
          | None \<Rightarrow> Inl (FailedToFormatAddress bindAddr)))"

text \<open>Lines 328-363 of SendReply: the reply header, a changed copy of the request's.\<close>

definition replyHeader :: "Header \<Rightarrow> byte \<Rightarrow> net_Addr list \<Rightarrow> error + Header" where
  "replyHeader head resp bindAddr =
     (let head = head\<lparr>Command := resp\<rparr> in
      case bindAddr of
        [] \<Rightarrow> Inr (head\<lparr>addrType := ATYPIPv4,
                        Address := (Address head)\<lparr>IP := [0, 0, 0, 0], Port := 0\<rparr>\<rparr>)
      | a # _ \<Rightarrow> setBindAddr bindAddr head (bindAddrSpec a))"

text \<open>SendReply: \<open>Bytes\<close> is \<open>Header.Bytes\<close>, the wire encoder declared outside
  src/, taken as a parameter. The result is the list of byte strings given to the writer
  (none when formatting failed) and the error returned (\<open>None\<close> for nil).\<close>

definition SendReply ::
  "(Header \<Rightarrow> byte list) \<Rightarrow> Writer \<Rightarrow> Header \<Rightarrow> byte \<Rightarrow> net_Addr list
     \<Rightarrow> byte list list \<times> error option" where
  "SendReply Bytes w head resp bindAddr =
     (case replyHeader head resp bindAddr of
        Inl e \<Rightarrow> ([], Some e)
      | Inr head' \<Rightarrow> ([Bytes head'], map_option External (w (Bytes head'))))"

section \<open>Requests, the server and its environment\<close>

text \<open>Pointers to \<open>AddrSpec\<close> values are indices into a heap of such values; \<open>None\<close> is
  the nil pointer. Two pointers alias exactly when they are equal. Reading through a nil
  pointer panics in Go.\<close>

type_synonym ptr = "nat option"

definition deref :: "AddrSpec list \<Rightarrow> ptr \<Rightarrow> AddrSpec option" where
  "deref h p = (case p of None \<Rightarrow> None | Some i \<Rightarrow> if i < length h then Some (h ! i) else None)"

text \<open>\<open>context.Context\<close> is opaque to request.go.\<close>

type_synonym Context = nat

definition context_Background :: Context where
  "context_Background = 0"

record Request =
  Header :: Header
  AuthContext :: "nat option"
  LocalAddr :: "net_Addr option"
  RemoteAddr :: "net_Addr option"
  DestAddr :: ptr
  Reader :: Reader
  RawDestAddr :: ptr

text \<open>The tasks handed to \<open>s.submit\<close>.\<close>

datatype task = ProxyToTarget | ProxyToClient | ForwardLoop | ReturnLoop string

text \<open>The calls a handler makes to its collaborators, in the order it makes them.\<close>

datatype event =
    EvResolve string
  | EvRewrite
  | EvAllow bool
  | EvDial string string
  | EvWrite "byte list"
  | EvListenUDP
  | EvSubmit task
  | EvGet
  | EvPut
  | EvCloseTarget
  | EvCloseBind
  | EvCopyWrite "byte list"
  | EvCloseWrite

record state =
  heap :: "AddrSpec list"
  trace :: "event list"

definition emit :: "event list \<Rightarrow> state \<Rightarrow> state" where
  "emit evs st = st\<lparr>trace := trace st @ evs\<rparr>"

text \<open>A \<open>net.Conn\<close> returned by a dial: whether its dynamic type is \<open>*net.UDPConn\<close>, and
  its local address.\<close>

record conn =
  isUDPConn :: bool
  connLocalAddr :: net_Addr

text \<open>Declarations of this repository outside src/ that the handlers call, as parameters:
  \<open>Header.Bytes\<close>, the values of the reply constants, and \<open>AddrSpec.String\<close>.\<close>

record ext =
  Bytes :: "Header \<Rightarrow> byte list"
  code :: "reply \<Rightarrow> byte"
  AddrString :: "AddrSpec \<Rightarrow> string"

text \<open>The fields of \<open>Server\<close> (declared outside src/) that request.go reads: the
  collaborators injected at construction. A rewriter and a user handler receive the
  \<open>*Request\<close>, so they also get the heap (the rewriter may allocate or write there).\<close>

type_synonym handler = "Context \<Rightarrow> Writer \<Rightarrow> state \<Rightarrow> Request \<Rightarrow> (state \<times> outcome) option"

record Server =
  resolver :: "Context \<Rightarrow> string \<Rightarrow> errmsg + (Context \<times> byte list)"
  rewriter :: "(Context \<Rightarrow> AddrSpec list \<Rightarrow> Request \<Rightarrow> Context \<times> AddrSpec list \<times> ptr) option"
  rules :: "Context \<Rightarrow> AddrSpec list \<Rightarrow> Request \<Rightarrow> Context \<times> bool"
  dial :: "(Context \<Rightarrow> string \<Rightarrow> string \<Rightarrow> errmsg + conn) option"
  userConnectHandle :: "handler option"
  userBindHandle :: "handler option"
  userAssociateHandle :: "handler option"

text \<open>What the platform answers during one call: \<open>net.Dial\<close>, \<open>net.ListenUDP("udp", nil)\<close>
  (the local address of the new socket, or an error), and the value that the \<open>select\<close> of
  handleConnect receives from the first relay direction to finish. The two relay tasks run
  concurrently; of them the model keeps only that they were submitted.\<close>

record env =
  net_Dial :: "string \<Rightarrow> string \<Rightarrow> errmsg + conn"
  net_ListenUDP :: "errmsg + net_Addr"
  relayResult :: "errmsg option"

section \<open>NewRequest\<close>

text \<open>\<open>Parse\<close>, the header decoder declared outside src/, is a parameter: it fails, or
  gives the header and the reader as it has left it. \<open>&hd.Address\<close> is a new heap cell.\<close>

definition NewRequest ::
  "(Reader \<Rightarrow> errmsg + Header \<times> Reader) \<Rightarrow> state \<Rightarrow> Reader \<Rightarrow> state \<times> (error + Request)" where
  "NewRequest Parse st bufConn =
     (case Parse bufConn of
        Inl err \<Rightarrow> (st, Inl (External err))
      | Inr (hdr, bufConn') \<Rightarrow>
          if Command hdr \<noteq> CommandConnect \<and> Command hdr \<noteq> CommandBind
             \<and> Command hdr \<noteq> CommandAssociate
          then (st, Inl (UnrecognizedCommand (Command hdr)))
          else (st\<lparr>heap := heap st @ [Address hdr]\<rparr>,
                Inr \<lparr>Header = hdr, AuthContext = None, LocalAddr = None, RemoteAddr = None,
                     DestAddr = None, Reader = bufConn',
                     RawDestAddr = Some (length (heap st))\<rparr>))"

section \<open>The command handlers\<close>

text \<open>A call of SendReply by a handler: the bytes written are added to the trace.\<close>

definition sendReply ::
  "ext \<Rightarrow> Writer \<Rightarrow> state \<Rightarrow> Header \<Rightarrow> reply \<Rightarrow> net_Addr list \<Rightarrow> state \<times> error option" where
  "sendReply x w st head resp bindAddr =
     (case SendReply (Bytes x) w head (code x resp) bindAddr of
        (ws, r) \<Rightarrow> (emit (map EvWrite ws) st, r))"

text \<open>Lines 137-143 of handleConnect and 190-196 of handleAssociate, the same text twice:
  the reply code for a dial error, by its message.\<close>

definition dialErrorResp :: "errmsg \<Rightarrow> reply" where
  "dialErrorResp msg =
     (if Contains msg ''refused'' then RepConnectionRefused
      else if Contains msg ''network is unreachable'' then RepNetworkUnreachable
      else RepHostUnreachable)"

text \<open>Lines 129-135 and 182-188: the injected dial function, or \<open>net.Dial\<close>.\<close>

definition dialWith :: "Server \<Rightarrow> env \<Rightarrow> Context \<Rightarrow> string \<Rightarrow> string \<Rightarrow> errmsg + conn" where
  "dialWith s e ctx network addr =
     (case dial s of None \<Rightarrow> net_Dial e network addr | Some d \<Rightarrow> d ctx network addr)"

text \<open>Lines 136-148 and 189-201: what both handlers do with a dial error.\<close>

definition dialFailed ::
  "ext \<Rightarrow> Writer \<Rightarrow> state \<Rightarrow> Request \<Rightarrow> errmsg \<Rightarrow> state \<times> outcome" where
  "dialFailed x writer st request msg =
     (case sendReply x writer st (Header request) (dialErrorResp msg) [] of
        (st', Some err) \<Rightarrow> (st', Return (Some (FailedToSendReply err)))
      | (st', None) \<Rightarrow>
          (st', Return (Some (ConnectFailed (deref (heap st') (RawDestAddr request)) msg))))"

text \<open>Lines 127-168. A nil \<open>DestAddr\<close> panics in \<open>request.DestAddr.String()\<close>.\<close>

definition handleConnect ::
  "ext \<Rightarrow> Server \<Rightarrow> env \<Rightarrow> Context \<Rightarrow> Writer \<Rightarrow> state \<Rightarrow> Request \<Rightarrow> state \<times> outcome" where
  "handleConnect x s e ctx writer st request =
     (case deref (heap st) (DestAddr request) of
        None \<Rightarrow> (st, Panic)
      | Some dest \<Rightarrow>
         (let st1 = emit [EvDial ''tcp'' (AddrString x dest)] st in
          case dialWith s e ctx ''tcp'' (AddrString x dest) of
            Inl msg \<Rightarrow> dialFailed x writer st1 request msg
          | Inr target \<Rightarrow>
             (case sendReply x writer st1 (Header request) RepSuccess [connLocalAddr target] of
                (st2, Some err) \<Rightarrow>
                  (emit [EvCloseTarget] st2, Return (Some (FailedToSendReply err)))
              | (st2, None) \<Rightarrow>
                  (emit [EvSubmit ProxyToTarget, EvSubmit ProxyToClient, EvCloseTarget] st2,
                   Return (map_option External (relayResult e))))))"

text \<open>Lines 171-177.\<close>

definition handleBind :: "ext \<Rightarrow> Writer \<Rightarrow> state \<Rightarrow> Request \<Rightarrow> state \<times> outcome" where
  "handleBind x writer st request =
     (case sendReply x writer st (Header request) RepCommandNotSupported [] of
        (st', Some err) \<Rightarrow> (st', Return (Some (FailedToSendReplyBind err)))
      | (st', None) \<Rightarrow> (st', Return None))"

text \<open>Lines 303-314 of handleAssociate: the foreground loop. It reads the request's stream
  and returns the first error whose text says that the connection is closed; \<open>None\<close> is
  a loop that never returns.\<close>

partial_function (option) waitClosed :: "Reader \<Rightarrow> ioerr option" where
  "waitClosed r =
     (case snd (shd r) of
        None \<Rightarrow> waitClosed (stl r)
      | Some err \<Rightarrow>
          if Contains (Error err) ''use of closed network connection'' then Some err
          else waitClosed (stl r))"

text \<open>Lines 180-315. The task submitted at line 227 runs concurrently with the handler;
  the handler's own trace records that it was submitted, and the loop it runs is
  \<open>forwardLoop\<close> below. When the foreground loop never returns, neither does the handler.\<close>

definition handleAssociate ::
  "ext \<Rightarrow> Server \<Rightarrow> env \<Rightarrow> Context \<Rightarrow> Writer \<Rightarrow> state \<Rightarrow> Request
     \<Rightarrow> (state \<times> outcome) option" where
  "handleAssociate x s e ctx writer st request =
     (case deref (heap st) (DestAddr request) of
        None \<Rightarrow> Some (st, Panic)
      | Some dest \<Rightarrow>
         (let st1 = emit [EvDial ''udp'' (AddrString x dest)] st in
          case dialWith s e ctx ''udp'' (AddrString x dest) of
            Inl msg \<Rightarrow> Some (dialFailed x writer st1 request msg)
          | Inr target \<Rightarrow>
              if \<not> isUDPConn target then
                (case sendReply x writer st1 (Header request) RepServerFailure [] of
                   (st2, Some err) \<Rightarrow>
                     Some (emit [EvCloseTarget] st2, Return (Some (FailedToSendReply err)))
                 | (st2, None) \<Rightarrow>
                     Some (emit [EvCloseTarget] st2, Return (Some DialUdpInvalid)))
              else
                (let st2 = emit [EvListenUDP] st1 in
                 case net_ListenUDP e of
                   Inl err \<Rightarrow>
                     (case sendReply x writer st2 (Header request) RepServerFailure [] of
                        (st3, Some err') \<Rightarrow>
                          Some (emit [EvCloseTarget] st3, Return (Some (FailedToSendReply err')))
                      | (st3, None) \<Rightarrow>
                          Some (emit [EvCloseTarget] st3, Return (Some (ListenUdpFailed err))))
                 | Inr bindLocal \<Rightarrow>
                     (case sendReply x writer st2 (Header request) RepSuccess [bindLocal] of
                        (st3, Some err) \<Rightarrow>
                          Some (emit [EvCloseBind, EvCloseTarget] st3,
                                Return (Some (FailedToSendReply err)))
                      | (st3, None) \<Rightarrow>
                          (case waitClosed (Reader request) of
                             None \<Rightarrow> None
                           | Some err \<Rightarrow>
                               Some (emit [EvSubmit ForwardLoop, EvGet, EvPut, EvCloseBind,
                                           EvCloseTarget] st3,
                                     Return (Some (External (Error err)))))))))"

section \<open>handleRequest\<close>

text \<open>\<open>*p = v\<close> for a pointer into the heap.\<close>

definition store :: "AddrSpec list \<Rightarrow> ptr \<Rightarrow> AddrSpec \<Rightarrow> AddrSpec list" where
  "store h p v = (case p of None \<Rightarrow> h | Some i \<Rightarrow> h[i := v])"

text \<open>Lines 72-83: resolve the address if it is a FQDN. \<open>dest\<close> is the pointer
  \<open>req.RawDestAddr\<close> itself, so \<open>dest.IP = addr\<close> writes into the cell it points to.
  The result is the early return, or the context and state to go on with.\<close>

definition resolveDest ::
  "ext \<Rightarrow> Server \<Rightarrow> Writer \<Rightarrow> Context \<Rightarrow> state \<Rightarrow> Request
     \<Rightarrow> (state \<times> outcome) + (Context \<times> state)" where
  "resolveDest x s write ctx st req =
     (case deref (heap st) (RawDestAddr req) of
        None \<Rightarrow> Inl (st, Panic)
      | Some dest \<Rightarrow>
          if FQDN dest \<noteq> [] then
            (let st1 = emit [EvResolve (FQDN dest)] st in
             case resolver s ctx (FQDN dest) of
               Inl err \<Rightarrow>
                 (case sendReply x write st1 (Header req) RepHostUnreachable [] of
                    (st2, Some err') \<Rightarrow> Inl (st2, Return (Some (FailedToSendReply err')))
                  | (st2, None) \<Rightarrow> Inl (st2, Return (Some (FailedToResolve (FQDN dest) err))))
             | Inr (ctx', addr) \<Rightarrow>
                 Inr (ctx', st1\<lparr>heap := store (heap st1) (RawDestAddr req) (dest\<lparr>IP := addr\<rparr>)\<rparr>))
          else Inr (ctx, st))"

text \<open>Lines 86-89: apply any address rewrites.\<close>

definition rewriteDest ::
  "Server \<Rightarrow> Context \<Rightarrow> state \<Rightarrow> Request \<Rightarrow> Context \<times> state \<times> Request" where
  "rewriteDest s ctx st req =
     (let req1 = req\<lparr>DestAddr := RawDestAddr req\<rparr> in
      case rewriter s of
        None \<Rightarrow> (ctx, st, req1)
      | Some rw \<Rightarrow>
         (case rw ctx (heap st) req1 of
            (ctx', h', p) \<Rightarrow> (ctx', emit [EvRewrite] (st\<lparr>heap := h'\<rparr>), req1\<lparr>DestAddr := p\<rparr>)))"

text \<open>Lines 69-89: the request as it stands when the rule is asked.\<close>

definition prepare ::
  "ext \<Rightarrow> Server \<Rightarrow> Writer \<Rightarrow> state \<Rightarrow> Request
     \<Rightarrow> (state \<times> outcome) + (Context \<times> state \<times> Request)" where
  "prepare x s write st req =
     (case resolveDest x s write context_Background st req of
        Inl r \<Rightarrow> Inl r
      | Inr (ctx, st1) \<Rightarrow> Inr (rewriteDest s ctx st1 req))"

text \<open>Lines 102-123: switch on the command.\<close>

definition dispatch ::
  "ext \<Rightarrow> Server \<Rightarrow> env \<Rightarrow> Context \<Rightarrow> Writer \<Rightarrow> state \<Rightarrow> Request
     \<Rightarrow> (state \<times> outcome) option" where
  "dispatch x s e ctx write st req =
     (if Command (Header req) = CommandConnect then
        (case userConnectHandle s of
           Some h \<Rightarrow> h ctx write st req
         | None \<Rightarrow> Some (handleConnect x s e ctx write st req))
      else if Command (Header req) = CommandBind then
        (case userBindHandle s of
           Some h \<Rightarrow> h ctx write st req
         | None \<Rightarrow> Some (handleBind x write st req))
      else if Command (Header req) = CommandAssociate then
        (case userAssociateHandle s of
           Some h \<Rightarrow> h ctx write st req
         | None \<Rightarrow> handleAssociate x s e ctx write st req)
      else
        (case sendReply x write st (Header req) RepCommandNotSupported [] of
           (st', Some err) \<Rightarrow> Some (st', Return (Some (FailedToSendReply err)))
         | (st', None) \<Rightarrow> Some (st', Return (Some (UnsupportedCommand (Command (Header req)))))))"

text \<open>Lines 92-99: check if this is allowed.\<close>

definition checkRules ::
  "ext \<Rightarrow> Server \<Rightarrow> env \<Rightarrow> Writer \<Rightarrow> Context \<times> state \<times> Request
     \<Rightarrow> (state \<times> outcome) option" where
  "checkRules x s e write c =
     (case c of (ctx, st, req) \<Rightarrow>
       (case rules s ctx (heap st) req of
          (ctx', ok) \<Rightarrow>
            (let st1 = emit [EvAllow ok] st in
             if \<not> ok then
               (case sendReply x write st1 (Header req) RepRuleFailure [] of
                  (st2, Some err) \<Rightarrow> Some (st2, Return (Some (FailedToSendReply err)))
                | (st2, None) \<Rightarrow>
                    Some (st2, Return (Some (BlockedByRules (deref (heap st2) (RawDestAddr req))))))
             else dispatch x s e ctx' write st1 req)))"

text \<open>Lines 68-124: the three stages in order.\<close>

definition handleRequest ::
  "ext \<Rightarrow> Server \<Rightarrow> env \<Rightarrow> Writer \<Rightarrow> state \<Rightarrow> Request \<Rightarrow> (state \<times> outcome) option" where
  "handleRequest x s e write st req =
     (case prepare x s write st req of
        Inl r \<Rightarrow> Some r
      | Inr c \<Rightarrow> checkRules x s e write c)"

section \<open>The client-to-destination loop of handleAssociate\<close>

text \<open>Modelled from the spec: the type \<open>Packet\<close> (the UDP relay frame of section 3) is
  declared outside src/; the loop reads its field \<open>Data\<close> only.\<close>

record Packet =
  RSV :: "16 word"
  Frag :: byte
  ATYP :: byte
  DstAddr :: AddrSpec
  Data :: "byte list"

text \<open>\<open>sync.Map.LoadOrStore\<close>: the map afterwards and whether the key was there.\<close>

definition LoadOrStore :: "(string \<rightharpoonup> unit) \<Rightarrow> string \<Rightarrow> unit \<Rightarrow> (string \<rightharpoonup> unit) \<times> bool" where
  "LoadOrStore m k v = (case m k of Some _ \<Rightarrow> (m, True) | None \<Rightarrow> (m(k \<mapsto> v), False))"

text \<open>What \<open>bindLn.ReadFrom\<close> answers: an error, or a datagram and the string form of the
  address it came from.\<close>

datatype bind_read = ReadFailed errmsg | Datagram "byte list" string

text \<open>The state of the loop: the session table \<open>conns\<close>, the source addresses for which a
  return-path task was submitted, in order, and the payloads written to the destination
  socket, in order.\<close>

record forward =
  conns :: "string \<rightharpoonup> unit"
  spawned :: "string list"
  sent :: "byte list list"

datatype status = Running | Stopped

text \<open>Lines 245-299: one turn of the loop. The input is what \<open>ReadFrom\<close> answers and what
  \<open>targetUDP.Write\<close> answers if the turn gets there. \<open>PacketParse\<close> is \<open>Packet.Parse\<close>,
  declared outside src/, a parameter.\<close>

definition forwardStep ::
  "(byte list \<Rightarrow> errmsg + Packet) \<Rightarrow> forward \<Rightarrow> bind_read \<times> errmsg option
     \<Rightarrow> forward \<times> status" where
  "forwardStep PacketParse f i =
     (case fst i of
        ReadFailed err \<Rightarrow>
          if Contains err ''use of closed network connection'' then (f, Stopped)
          else (f, Running)
      | Datagram b srcAddr \<Rightarrow>
         (case PacketParse b of
            Inl err \<Rightarrow> (f, Running)
          | Inr pk \<Rightarrow>
             (case LoadOrStore (conns f) srcAddr () of
                (m, loaded) \<Rightarrow>
                  (let f1 = f\<lparr>conns := m,
                              spawned := (if \<not> loaded then spawned f @ [srcAddr] else spawned f)\<rparr>;
                       f2 = f1\<lparr>sent := sent f1 @ [Data pk]\<rparr>
                   in case snd i of Some err \<Rightarrow> (f2, Stopped) | None \<Rightarrow> (f2, Running)))))"

text \<open>Lines 244-300: the loop over the answers of the two sockets; \<open>Running\<close> when they
  are used up and the loop has not returned.\<close>

fun forwardLoop ::
  "(byte list \<Rightarrow> errmsg + Packet) \<Rightarrow> forward \<Rightarrow> (bind_read \<times> errmsg option) list
     \<Rightarrow> forward \<times> status" where
  "forwardLoop PacketParse f [] = (f, Running)"
| "forwardLoop PacketParse f (i # is) =
     (case forwardStep PacketParse f i of
        (f', Stopped) \<Rightarrow> (f', Stopped)
      | (f', Running) \<Rightarrow> forwardLoop PacketParse f' is)"

text \<open>Line 237: the loop starts with an empty session table.\<close>

definition forwardInit :: forward where
  "forwardInit = \<lparr>conns = Map.empty, spawned = [], sent = []\<rparr>"

text \<open>Modelled from the spec: \<open>Packet.Parse\<close>, declared outside src/, for the frame of
  section 6, RSV(2) FRAG(1) ATYP(1) DST.ADDR(var) DST.PORT(2) DATA(var), with the address
  types IPv4=1, Domain=3, IPv6=4; the address is 4 bytes, one length byte and the name, or
  16 bytes, as in SOCKS5. A frame too short for its fields, or of another address type,
  does not parse.\<close>

definition portOf :: "byte list \<Rightarrow> int" where
  "portOf b = int (unat (b ! 0)) * 256 + int (unat (b ! 1))"

definition mkPacket :: "byte list \<Rightarrow> AddrSpec \<Rightarrow> byte list \<Rightarrow> Packet" where
  "mkPacket b a d =
     \<lparr>RSV = 0, Frag = b ! 2, ATYP = b ! 3, DstAddr = a, Data = d\<rparr>"

definition Packet_Parse :: "byte list \<Rightarrow> errmsg + Packet" where
  "Packet_Parse b =
     (if length b < 4 then Inl ''short packet''
      else
        (let r = drop 4 b in
         if b ! 3 = ATYPIPv4 then
           (if length r < 6 then Inl ''short packet''
            else Inr (mkPacket b \<lparr>FQDN = [], IP = take 4 r, Port = portOf (drop 4 r)\<rparr> (drop 6 r)))
         else if b ! 3 = ATYPIPV6 then
           (if length r < 18 then Inl ''short packet''
            else Inr (mkPacket b \<lparr>FQDN = [], IP = take 16 r, Port = portOf (drop 16 r)\<rparr>
                        (drop 18 r)))
         else if b ! 3 = ATYPDomain then
           (if length r < 1 \<or> length r < 3 + unat (r ! 0) then Inl ''short packet''
            else Inr (mkPacket b
                        \<lparr>FQDN = map (\<lambda>c. char_of (unat c)) (take (unat (r ! 0)) (drop 1 r)),
                         IP = [], Port = portOf (drop (1 + unat (r ! 0)) r)\<rparr>
                        (drop (3 + unat (r ! 0)) r)))
         else Inl ''unrecognized address type''))"

section \<open>Proxy\<close>








section \<open>Properties\<close>

subsection \<open>Auxiliary facts\<close>

lemma Contains_sublist: "Contains s sub \<longleftrightarrow> sublist sub s"
  by (induction s) (auto simp: sublist_Cons_right)

lemma bindAddrSpec_FQDN: "FQDN (bindAddrSpec a) = []"
  by (auto simp: bindAddrSpec_def split: net_Addr.splits option.splits)

lemma setBindAddr_type:
  "setBindAddr bs (h :: Header) spec = Inr h' \<Longrightarrow> FQDN spec = [] \<Longrightarrow>
     addrType h' = ATYPIPv4 \<or> addrType h' = ATYPIPV6"
  by (auto simp: setBindAddr_def split: option.splits)

lemma replyHeader_type:
  "replyHeader head resp bindAddr = Inr h \<Longrightarrow> addrType h = ATYPIPv4 \<or> addrType h = ATYPIPV6"
  by (cases bindAddr) (auto simp: replyHeader_def bindAddrSpec_FQDN dest: setBindAddr_type)

lemma reply_no_addr:
  "sendReply x w st head resp [] =
     (st\<lparr>trace := trace st @
          [EvWrite (Bytes x (head\<lparr>Command := code x resp, addrType := ATYPIPv4,
               Address := (Address head)\<lparr>IP := [0, 0, 0, 0], Port := 0\<rparr>\<rparr>))]\<rparr>,
      map_option External
        (w (Bytes x (head\<lparr>Command := code x resp, addrType := ATYPIPv4,
               Address := (Address head)\<lparr>IP := [0, 0, 0, 0], Port := 0\<rparr>\<rparr>))))"
  by (simp add: sendReply_def SendReply_def replyHeader_def emit_def)

lemma dialFailed_eq:
  "dialFailed x writer st request msg =
     (st\<lparr>trace := trace st @
          [EvWrite (Bytes x ((Header request)\<lparr>Command := code x (dialErrorResp msg),
               addrType := ATYPIPv4,
               Address := (Address (Header request))\<lparr>IP := [0, 0, 0, 0], Port := 0\<rparr>\<rparr>))]\<rparr>,
      Return (Some
        (case writer (Bytes x ((Header request)\<lparr>Command := code x (dialErrorResp msg),
               addrType := ATYPIPv4,
               Address := (Address (Header request))\<lparr>IP := [0, 0, 0, 0], Port := 0\<rparr>\<rparr>)) of
           Some err \<Rightarrow> FailedToSendReply (External err)
         | None \<Rightarrow> ConnectFailed (deref (heap st) (RawDestAddr request)) msg)))"
  by (simp add: dialFailed_def reply_no_addr split: option.splits)

subsection \<open>The reply encoder\<close>

text \<open>C4. SendReply with no bound address writes the header with the reply code, address
  type IPv4, address 0.0.0.0 and port 0. With a bound address it writes what the switch
  makes of the address spec derived from the first address: a spec with a FQDN is encoded
  as domain type, else one whose IP has a 4-byte form as IPv4, else one whose IP has a
  16-byte form as IPv6, else the switch fails with the formatting error and nothing is
  written. A bound address that is neither a non-nil TCP address nor a non-nil UDP address
  gives the zero IPv4 address and port 0, and no failure; the spec derived from a TCP or
  a UDP address has that address's IP and port and no FQDN.\<close>

theorem SendReply_encoding:
  "SendReply B w head resp [] =
     ([B (head\<lparr>Command := resp, addrType := ATYPIPv4,
               Address := (Address head)\<lparr>IP := [0, 0, 0, 0], Port := 0\<rparr>\<rparr>)],
      map_option External
        (w (B (head\<lparr>Command := resp, addrType := ATYPIPv4,
                    Address := (Address head)\<lparr>IP := [0, 0, 0, 0], Port := 0\<rparr>\<rparr>))))
   \<and> SendReply B w head resp (a # as) =
       (case setBindAddr (a # as) (head\<lparr>Command := resp\<rparr>) (bindAddrSpec a) of
          Inl err \<Rightarrow> ([], Some err)
        | Inr h' \<Rightarrow> ([B h'], map_option External (w (B h'))))
   \<and> (FQDN spec \<noteq> [] \<longrightarrow>
        setBindAddr bs h spec =
          Inr (h\<lparr>addrType := ATYPDomain,
                 Address := (Address h)\<lparr>FQDN := FQDN spec, Port := Port spec\<rparr>\<rparr>))
   \<and> (FQDN spec = [] \<and> To4 (IP spec) = Some four \<longrightarrow>
        setBindAddr bs h spec =
          Inr (h\<lparr>addrType := ATYPIPv4,
                 Address := (Address h)\<lparr>IP := four, Port := Port spec\<rparr>\<rparr>))
   \<and> (FQDN spec = [] \<and> To4 (IP spec) = None \<and> To16 (IP spec) = Some sixteen \<longrightarrow>
        setBindAddr bs h spec =
          Inr (h\<lparr>addrType := ATYPIPV6,
                 Address := (Address h)\<lparr>IP := sixteen, Port := Port spec\<rparr>\<rparr>))
   \<and> (FQDN spec = [] \<and> To4 (IP spec) = None \<and> To16 (IP spec) = None \<longrightarrow>
        setBindAddr bs h spec = Inl (FailedToFormatAddress bs))
   \<and> ((\<forall>v. a \<noteq> TCPAddr (Some v)) \<and> (\<forall>v. a \<noteq> UDPAddr (Some v)) \<longrightarrow>
        SendReply B w head resp (a # as) =
          ([B (head\<lparr>Command := resp, addrType := ATYPIPv4,
                    Address := (Address head)\<lparr>IP := [0, 0, 0, 0], Port := 0\<rparr>\<rparr>)],
           map_option External
             (w (B (head\<lparr>Command := resp, addrType := ATYPIPv4,
                         Address := (Address head)\<lparr>IP := [0, 0, 0, 0], Port := 0\<rparr>\<rparr>)))))
   \<and> bindAddrSpec (TCPAddr (Some t)) = \<lparr>FQDN = [], IP = addrIP t, Port = addrPort t\<rparr>
   \<and> bindAddrSpec (UDPAddr (Some u)) = \<lparr>FQDN = [], IP = addrIP u, Port = addrPort u\<rparr>"
proof (intro conjI impI)
  show "SendReply B w head resp (a # as) =
       (case setBindAddr (a # as) (head\<lparr>Command := resp\<rparr>) (bindAddrSpec a) of
          Inl err \<Rightarrow> ([], Some err)
        | Inr h' \<Rightarrow> ([B h'], map_option External (w (B h'))))"
    by (simp add: SendReply_def replyHeader_def split: sum.splits)
next
  assume other: "(\<forall>v. a \<noteq> TCPAddr (Some v)) \<and> (\<forall>v. a \<noteq> UDPAddr (Some v))"
  then have "bindAddrSpec a = \<lparr>FQDN = [], IP = [0, 0, 0, 0], Port = 0\<rparr>"
    by (auto simp: bindAddrSpec_def split: net_Addr.splits option.splits)
  then show "SendReply B w head resp (a # as) =
          ([B (head\<lparr>Command := resp, addrType := ATYPIPv4,
                    Address := (Address head)\<lparr>IP := [0, 0, 0, 0], Port := 0\<rparr>\<rparr>)],
           map_option External
             (w (B (head\<lparr>Command := resp, addrType := ATYPIPv4,
                         Address := (Address head)\<lparr>IP := [0, 0, 0, 0], Port := 0\<rparr>\<rparr>))))"
    by (simp add: SendReply_def replyHeader_def setBindAddr_def To4_def)
qed (simp_all add: SendReply_def replyHeader_def setBindAddr_def bindAddrSpec_def)

theorem SendReply_encoding_witness:
  "setBindAddr [] \<lparr>Version = 5, Command = 1, Reserved = 0, addrType = 1,
                   Address = \<lparr>FQDN = [], IP = [10, 0, 0, 1], Port = 80\<rparr>\<rparr>
       \<lparr>FQDN = ''proxy.local'', IP = [], Port = 1080\<rparr>
     = Inr \<lparr>Version = 5, Command = 1, Reserved = 0, addrType = 3,
            Address = \<lparr>FQDN = ''proxy.local'', IP = [10, 0, 0, 1], Port = 1080\<rparr>\<rparr>
   \<and> SendReply (\<lambda>h. addrType h # IP (Address h)) (\<lambda>b. None)
         \<lparr>Version = 5, Command = 1, Reserved = 0, addrType = 3,
          Address = \<lparr>FQDN = ''example.com'', IP = [], Port = 80\<rparr>\<rparr>
         0 [TCPAddr (Some \<lparr>addrIP = [127, 0, 0, 1], addrPort = 55001\<rparr>)]
     = ([[1, 127, 0, 0, 1]], None)
   \<and> SendReply (\<lambda>h. addrType h # IP (Address h)) (\<lambda>b. None)
         \<lparr>Version = 5, Command = 1, Reserved = 0, addrType = 3,
          Address = \<lparr>FQDN = ''example.com'', IP = [], Port = 80\<rparr>\<rparr>
         0 [UDPAddr (Some \<lparr>addrIP = [0, 0, 0, 0, 0, 0, 0, 0, 0, 0, 0, 0, 0, 0, 0, 1], addrPort = 4000\<rparr>)]
     = ([4 # [0, 0, 0, 0, 0, 0, 0, 0, 0, 0, 0, 0, 0, 0, 0, 1]], None)
   \<and> SendReply (\<lambda>h. addrType h # IP (Address h)) (\<lambda>b. None)
         \<lparr>Version = 5, Command = 1, Reserved = 0, addrType = 3,
          Address = \<lparr>FQDN = ''example.com'', IP = [], Port = 80\<rparr>\<rparr>
         0 [TCPAddr (Some \<lparr>addrIP = [], addrPort = 80\<rparr>)]
     = ([], Some (FailedToFormatAddress [TCPAddr (Some \<lparr>addrIP = [], addrPort = 80\<rparr>)]))
   \<and> SendReply (\<lambda>h. addrType h # IP (Address h)) (\<lambda>b. None)
         \<lparr>Version = 5, Command = 1, Reserved = 0, addrType = 3,
          Address = \<lparr>FQDN = ''example.com'', IP = [], Port = 80\<rparr>\<rparr>
         0 [OtherAddr ''unix'' ''/tmp/socket'']
     = ([[1, 0, 0, 0, 0]], None)"
proof -
  let ?B = "(\<lambda>h. addrType h # IP (Address h))"
  let ?head = "\<lparr>Version = 5, Command = 1, Reserved = 0, addrType = 3,
                Address = \<lparr>FQDN = ''example.com'', IP = [], Port = 80\<rparr>\<rparr>"
  let ?h = "\<lparr>Version = 5, Command = 0, Reserved = 0, addrType = 3,
             Address = \<lparr>FQDN = ''example.com'', IP = [], Port = 80\<rparr>\<rparr>"
  let ?tcp = "TCPAddr (Some \<lparr>addrIP = [127, 0, 0, 1], addrPort = 55001\<rparr>)"
  let ?udp = "UDPAddr (Some \<lparr>addrIP = [0, 0, 0, 0, 0, 0, 0, 0, 0, 0, 0, 0, 0, 0, 0, 1], addrPort = 4000\<rparr>)"
  let ?bad = "TCPAddr (Some \<lparr>addrIP = [], addrPort = 80\<rparr>)"
  show ?thesis
    using
      SendReply_encoding
        [where spec = "\<lparr>FQDN = ''proxy.local'', IP = [], Port = 1080\<rparr>" and bs = "[]"
           and h = "\<lparr>Version = 5, Command = 1, Reserved = 0, addrType = 1,
                     Address = \<lparr>FQDN = [], IP = [10, 0, 0, 1], Port = 80\<rparr>\<rparr>"]
      SendReply_encoding
        [where B = ?B and w = "\<lambda>b. None" and resp = 0 and head = ?head and a = ?tcp
           and as = "[]" and spec = "\<lparr>FQDN = [], IP = [127, 0, 0, 1], Port = 55001\<rparr>"
           and four = "[127, 0, 0, 1]" and bs = "[?tcp]" and h = ?h]
      SendReply_encoding
        [where B = ?B and w = "\<lambda>b. None" and resp = 0 and head = ?head and a = ?udp
           and as = "[]" and spec = "\<lparr>FQDN = [], IP = [0, 0, 0, 0, 0, 0, 0, 0, 0, 0, 0, 0, 0, 0, 0, 1], Port = 4000\<rparr>"
           and sixteen = "[0, 0, 0, 0, 0, 0, 0, 0, 0, 0, 0, 0, 0, 0, 0, 1]" and bs = "[?udp]" and h = ?h]
      SendReply_encoding
        [where B = ?B and w = "\<lambda>b. None" and resp = 0 and head = ?head and a = ?bad
           and as = "[]" and spec = "\<lparr>FQDN = [], IP = [], Port = 80\<rparr>"
           and bs = "[?bad]" and h = ?h]
      SendReply_encoding
        [where B = ?B and w = "\<lambda>b. None" and resp = 0 and head = ?head
           and a = "OtherAddr ''unix'' ''/tmp/socket''" and as = "[]"]
    by (simp add: To4_def To16_def v4InV6Prefix_def bindAddrSpec_def ATYPIPv4_def ATYPIPV6_def
          ATYPDomain_def)
qed

text \<open>C10. The address spec SendReply derives from a bound address has an empty FQDN, so
  whatever SendReply writes is a header whose address type is IPv4 or IPv6 and never the
  domain type; when it writes nothing it has failed with the formatting error.\<close>

theorem SendReply_never_domain:
  "FQDN (bindAddrSpec a) = []
   \<and> (case replyHeader head resp bindAddr of
         Inl err \<Rightarrow> SendReply B w head resp bindAddr = ([], Some err)
       | Inr h \<Rightarrow>
           SendReply B w head resp bindAddr = ([B h], map_option External (w (B h)))
           \<and> (addrType h = ATYPIPv4 \<or> addrType h = ATYPIPV6)
           \<and> addrType h \<noteq> ATYPDomain)"
proof -
  have "addrType h \<noteq> ATYPDomain"
    if "addrType h = ATYPIPv4 \<or> addrType h = ATYPIPV6" for h :: Header
    using that by (auto simp: ATYPIPv4_def ATYPIPV6_def ATYPDomain_def)
  then show ?thesis
    by (auto simp: bindAddrSpec_FQDN SendReply_def split: sum.splits dest: replyHeader_type)
qed

theorem SendReply_never_domain_witness:
  "SendReply (\<lambda>h. addrType h # IP (Address h)) (\<lambda>b. None)
       \<lparr>Version = 5, Command = 1, Reserved = 0, addrType = 3,
        Address = \<lparr>FQDN = ''example.com'', IP = [], Port = 80\<rparr>\<rparr>
       0 [TCPAddr (Some \<lparr>addrIP = [127, 0, 0, 1], addrPort = 55001\<rparr>)]
     = ([[1, 127, 0, 0, 1]], None)"
proof -
  let ?tcp = "TCPAddr (Some \<lparr>addrIP = [127, 0, 0, 1], addrPort = 55001\<rparr>)"
  show ?thesis
    using SendReply_never_domain
      [where B = "(\<lambda>h. addrType h # IP (Address h))" and w = "\<lambda>b. None" and resp = 0
         and head = "\<lparr>Version = 5, Command = 1, Reserved = 0, addrType = 3,
                      Address = \<lparr>FQDN = ''example.com'', IP = [], Port = 80\<rparr>\<rparr>"
         and a = ?tcp and bindAddr = "[?tcp]"]
    by (simp add: replyHeader_def setBindAddr_def To4_def bindAddrSpec_def ATYPIPv4_def)
qed

subsection \<open>Dial errors\<close>

text \<open>C1. When the dial of the outbound connection returns an error, handleConnect
  (network tcp) and handleAssociate (network udp) choose the reply code by the text of
  the error: ConnectionRefused if it contains "refused", else NetworkUnreachable if it
  contains "network is unreachable", else HostUnreachable. They write that reply (with
  the zero IPv4 address) and return an error: the wrapped dial error, or the wrapped
  write error if the reply could not be sent. The trace of the call holds one dial and one
  write: the dial is not tried again.\<close>

theorem dial_error_reply:
  "dialErrorResp msg =
     (if sublist ''refused'' msg then RepConnectionRefused
      else if sublist ''network is unreachable'' msg then RepNetworkUnreachable
      else RepHostUnreachable)
   \<and> (deref (heap st) (DestAddr request) = Some dest
        \<and> dialWith s e ctx ''tcp'' (AddrString x dest) = Inl msg \<longrightarrow>
      handleConnect x s e ctx writer st request =
        (st\<lparr>trace := trace st @
           [EvDial ''tcp'' (AddrString x dest),
            EvWrite (Bytes x ((Header request)\<lparr>Command := code x (dialErrorResp msg),
               addrType := ATYPIPv4,
               Address := (Address (Header request))\<lparr>IP := [0, 0, 0, 0], Port := 0\<rparr>\<rparr>))]\<rparr>,
         Return (Some
           (case writer (Bytes x ((Header request)\<lparr>Command := code x (dialErrorResp msg),
               addrType := ATYPIPv4,
               Address := (Address (Header request))\<lparr>IP := [0, 0, 0, 0], Port := 0\<rparr>\<rparr>)) of
              Some err \<Rightarrow> FailedToSendReply (External err)
            | None \<Rightarrow> ConnectFailed (deref (heap st) (RawDestAddr request)) msg))))
   \<and> (deref (heap st) (DestAddr request) = Some dest
        \<and> dialWith s e ctx ''udp'' (AddrString x dest) = Inl msg \<longrightarrow>
      handleAssociate x s e ctx writer st request =
        Some (st\<lparr>trace := trace st @
           [EvDial ''udp'' (AddrString x dest),
            EvWrite (Bytes x ((Header request)\<lparr>Command := code x (dialErrorResp msg),
               addrType := ATYPIPv4,
               Address := (Address (Header request))\<lparr>IP := [0, 0, 0, 0], Port := 0\<rparr>\<rparr>))]\<rparr>,
         Return (Some
           (case writer (Bytes x ((Header request)\<lparr>Command := code x (dialErrorResp msg),
               addrType := ATYPIPv4,
               Address := (Address (Header request))\<lparr>IP := [0, 0, 0, 0], Port := 0\<rparr>\<rparr>)) of
              Some err \<Rightarrow> FailedToSendReply (External err)
            | None \<Rightarrow> ConnectFailed (deref (heap st) (RawDestAddr request)) msg))))"
proof (intro conjI impI)
  show "dialErrorResp msg =
     (if sublist ''refused'' msg then RepConnectionRefused
      else if sublist ''network is unreachable'' msg then RepNetworkUnreachable
      else RepHostUnreachable)"
    by (simp add: dialErrorResp_def Contains_sublist)
qed (simp_all add: handleConnect_def handleAssociate_def dialFailed_eq emit_def
       split: option.splits)

theorem dial_error_reply_witness:
  "handleConnect
       \<lparr>Bytes = (\<lambda>h. [Version h, Command h, Reserved h, addrType h]),
        code = (\<lambda>r. case r of RepSuccess \<Rightarrow> 0 | RepServerFailure \<Rightarrow> 1
                  | RepRuleFailure \<Rightarrow> 2 | RepNetworkUnreachable \<Rightarrow> 3
                  | RepHostUnreachable \<Rightarrow> 4 | RepConnectionRefused \<Rightarrow> 5
                  | RepCommandNotSupported \<Rightarrow> 7),
        AddrString = (\<lambda>a. ''10.0.0.1:80'')\<rparr>
       \<lparr>resolver = (\<lambda>c n. Inl ''no such host''),
        rewriter = None,
        rules = (\<lambda>c h r. (c, True)),
        dial = Some (\<lambda>c n a. Inl ''connection refused''),
        userConnectHandle = None, userBindHandle = None, userAssociateHandle = None\<rparr>
       \<lparr>net_Dial = (\<lambda>n a. Inl ''no route to host''), net_ListenUDP = Inl ''denied'',
        relayResult = None\<rparr>
       0 (\<lambda>b. None)
       \<lparr>heap = [\<lparr>FQDN = [], IP = [10, 0, 0, 1], Port = 80\<rparr>], trace = []\<rparr>
       \<lparr>Header = \<lparr>Version = 5, Command = 1, Reserved = 0, addrType = 1,
                         Address = \<lparr>FQDN = [], IP = [10, 0, 0, 1], Port = 80\<rparr>\<rparr>,
        AuthContext = None, LocalAddr = None, RemoteAddr = None, DestAddr = Some 0,
        Reader = sconst ([], Some EOF), RawDestAddr = Some 0\<rparr>
     = (\<lparr>heap = [\<lparr>FQDN = [], IP = [10, 0, 0, 1], Port = 80\<rparr>],
         trace = [EvDial ''tcp'' ''10.0.0.1:80'', EvWrite [5, 5, 0, 1]]\<rparr>,
        Return (Some (ConnectFailed (Some \<lparr>FQDN = [], IP = [10, 0, 0, 1], Port = 80\<rparr>)
                        ''connection refused'')))
   \<and> handleAssociate
       \<lparr>Bytes = (\<lambda>h. [Version h, Command h, Reserved h, addrType h]),
        code = (\<lambda>r. case r of RepSuccess \<Rightarrow> 0 | RepServerFailure \<Rightarrow> 1
                  | RepRuleFailure \<Rightarrow> 2 | RepNetworkUnreachable \<Rightarrow> 3
                  | RepHostUnreachable \<Rightarrow> 4 | RepConnectionRefused \<Rightarrow> 5
                  | RepCommandNotSupported \<Rightarrow> 7),
        AddrString = (\<lambda>a. ''10.0.0.1:80'')\<rparr>
       \<lparr>resolver = (\<lambda>c n. Inl ''no such host''),
        rewriter = None,
        rules = (\<lambda>c h r. (c, True)),
        dial = Some (\<lambda>c n a. Inl ''connection refused''),
        userConnectHandle = None, userBindHandle = None, userAssociateHandle = None\<rparr>
       \<lparr>net_Dial = (\<lambda>n a. Inl ''no route to host''), net_ListenUDP = Inl ''denied'',
        relayResult = None\<rparr>
       0 (\<lambda>b. None)
       \<lparr>heap = [\<lparr>FQDN = [], IP = [10, 0, 0, 1], Port = 80\<rparr>], trace = []\<rparr>
       \<lparr>Header = \<lparr>Version = 5, Command = 1, Reserved = 0, addrType = 1,
                         Address = \<lparr>FQDN = [], IP = [10, 0, 0, 1], Port = 80\<rparr>\<rparr>,
        AuthContext = None, LocalAddr = None, RemoteAddr = None, DestAddr = Some 0,
        Reader = sconst ([], Some EOF), RawDestAddr = Some 0\<rparr>
     = Some (\<lparr>heap = [\<lparr>FQDN = [], IP = [10, 0, 0, 1], Port = 80\<rparr>],
              trace = [EvDial ''udp'' ''10.0.0.1:80'', EvWrite [5, 5, 0, 1]]\<rparr>,
             Return (Some (ConnectFailed (Some \<lparr>FQDN = [], IP = [10, 0, 0, 1], Port = 80\<rparr>)
                             ''connection refused'')))"
proof -
  let ?x = "\<lparr>Bytes = (\<lambda>h. [Version h, Command h, Reserved h, addrType h]),
             code = (\<lambda>r. case r of RepSuccess \<Rightarrow> 0 | RepServerFailure \<Rightarrow> 1
                       | RepRuleFailure \<Rightarrow> 2 | RepNetworkUnreachable \<Rightarrow> 3
                       | RepHostUnreachable \<Rightarrow> 4 | RepConnectionRefused \<Rightarrow> 5
                       | RepCommandNotSupported \<Rightarrow> 7),
             AddrString = (\<lambda>a. ''10.0.0.1:80'')\<rparr>"
  let ?s = "\<lparr>resolver = (\<lambda>c n. Inl ''no such host''),
             rewriter = None,
             rules = (\<lambda>c h r. (c, True)),
             dial = Some (\<lambda>c n a. Inl ''connection refused''),
             userConnectHandle = None, userBindHandle = None, userAssociateHandle = None\<rparr>"
  let ?e = "\<lparr>net_Dial = (\<lambda>n a. Inl ''no route to host''), net_ListenUDP = Inl ''denied'',
             relayResult = None\<rparr>"
  let ?st = "\<lparr>heap = [\<lparr>FQDN = [], IP = [10, 0, 0, 1], Port = 80\<rparr>], trace = []\<rparr>"
  let ?req = "\<lparr>Header = \<lparr>Version = 5, Command = 1, Reserved = 0, addrType = 1,
                                Address = \<lparr>FQDN = [], IP = [10, 0, 0, 1], Port = 80\<rparr>\<rparr>,
               AuthContext = None, LocalAddr = None, RemoteAddr = None, DestAddr = Some 0,
               Reader = sconst ([], Some EOF), RawDestAddr = Some 0\<rparr>"
  show ?thesis
    using dial_error_reply
      [where msg = "''connection refused''" and st = ?st and request = ?req
         and dest = "\<lparr>FQDN = [], IP = [10, 0, 0, 1], Port = 80\<rparr>" and s = ?s and e = ?e and ctx = 0
         and x = ?x and writer = "\<lambda>b. None"]
    by (simp add: deref_def dialWith_def ATYPIPv4_def dialErrorResp_def)
qed

subsection \<open>NewRequest\<close>

text \<open>C5. NewRequest fails when the header decoder fails, and fails when the parsed
  command is not one of 1, 2, 3, so every request it returns has one of these commands.
  On success the request's Reader is the reader as the decoder left it, after the header,
  its RawDestAddr points to a new cell holding the parsed address, and nothing else in
  the heap changes.\<close>

theorem NewRequest_result:
  "(Parse r = Inl err \<longrightarrow> NewRequest Parse st r = (st, Inl (External err)))
   \<and> (Parse r = Inr (h, r') \<and> Command h \<notin> {1, 2, 3} \<longrightarrow>
        NewRequest Parse st r = (st, Inl (UnrecognizedCommand (Command h))))
   \<and> (Parse r = Inr (h, r') \<and> Command h \<in> {1, 2, 3} \<longrightarrow>
        (\<exists>st' req. NewRequest Parse st r = (st', Inr req)
           \<and> Header req = h \<and> Reader req = r' \<and> DestAddr req = None
           \<and> deref (heap st') (RawDestAddr req) = Some (Address h)
           \<and> (\<forall>p. p \<noteq> RawDestAddr req \<longrightarrow> deref (heap st') p = deref (heap st) p)
           \<and> trace st' = trace st))
   \<and> (NewRequest Parse st r = (st1, Inr req1) \<longrightarrow> Command (Header req1) \<in> {1, 2, 3})"
proof (intro conjI impI)
  assume "Parse r = Inr (h, r') \<and> Command h \<in> {1, 2, 3}"
  then show "\<exists>st' req. NewRequest Parse st r = (st', Inr req)
           \<and> Header req = h \<and> Reader req = r' \<and> DestAddr req = None
           \<and> deref (heap st') (RawDestAddr req) = Some (Address h)
           \<and> (\<forall>p. p \<noteq> RawDestAddr req \<longrightarrow> deref (heap st') p = deref (heap st) p)
           \<and> trace st' = trace st"
    by (auto simp add: NewRequest_def CommandConnect_def CommandBind_def CommandAssociate_def
          deref_def nth_append split: option.splits)
next
  assume "NewRequest Parse st r = (st1, Inr req1)"
  then show "Command (Header req1) \<in> {1, 2, 3}"
    by (auto simp add: NewRequest_def CommandConnect_def CommandBind_def CommandAssociate_def
          split: sum.splits if_splits)
qed (simp_all add: NewRequest_def CommandConnect_def CommandBind_def CommandAssociate_def)

theorem NewRequest_result_witness:
  "NewRequest (\<lambda>r. Inl ''short header'') \<lparr>heap = [], trace = []\<rparr> (sconst ([], Some EOF))
     = (\<lparr>heap = [], trace = []\<rparr>, Inl (External ''short header''))
   \<and> NewRequest
       (\<lambda>r. Inr (\<lparr>Version = 5, Command = 9, Reserved = 0, addrType = 1,
                          Address = \<lparr>FQDN = [], IP = [10, 0, 0, 1], Port = 80\<rparr>\<rparr>, stl r))
       \<lparr>heap = [], trace = []\<rparr>
       (([5, 9, 0, 1, 10, 0, 0, 1, 0, 80], None) ## sconst ([], Some EOF))
     = (\<lparr>heap = [], trace = []\<rparr>, Inl (UnrecognizedCommand 9))
   \<and> NewRequest
       (\<lambda>r. Inr (\<lparr>Version = 5, Command = 1, Reserved = 0, addrType = 1,
                          Address = \<lparr>FQDN = [], IP = [10, 0, 0, 1], Port = 80\<rparr>\<rparr>, stl r))
       \<lparr>heap = [], trace = []\<rparr>
       (([5, 1, 0, 1, 10, 0, 0, 1, 0, 80], None) ## sconst ([], Some EOF))
     = (\<lparr>heap = [\<lparr>FQDN = [], IP = [10, 0, 0, 1], Port = 80\<rparr>], trace = []\<rparr>,
        Inr \<lparr>Header = \<lparr>Version = 5, Command = 1, Reserved = 0, addrType = 1,
                              Address = \<lparr>FQDN = [], IP = [10, 0, 0, 1], Port = 80\<rparr>\<rparr>,
             AuthContext = None, LocalAddr = None, RemoteAddr = None, DestAddr = None,
             Reader = sconst ([], Some EOF), RawDestAddr = Some 0\<rparr>)"
proof -
  let ?nine = "\<lparr>Version = 5, Command = 9, Reserved = 0, addrType = 1,
                Address = \<lparr>FQDN = [], IP = [10, 0, 0, 1], Port = 80\<rparr>\<rparr>"
  let ?one = "\<lparr>Version = 5, Command = 1, Reserved = 0, addrType = 1,
               Address = \<lparr>FQDN = [], IP = [10, 0, 0, 1], Port = 80\<rparr>\<rparr>"
  let ?st = "\<lparr>heap = [], trace = []\<rparr>"
  show ?thesis
    using
      NewRequest_result
        [where Parse = "\<lambda>r. Inl ''short header''" and err = "''short header''" and st = ?st
           and r = "sconst ([], Some EOF)"]
      NewRequest_result
        [where Parse = "\<lambda>r. Inr (?nine, stl r)" and h = ?nine and r' = "sconst ([], Some EOF)"
           and st = ?st
           and r = "([5, 9, 0, 1, 10, 0, 0, 1, 0, 80], None) ## sconst ([], Some EOF)"]
      NewRequest_result
        [where Parse = "\<lambda>r. Inr (?one, stl r)" and h = ?one and r' = "sconst ([], Some EOF)"
           and st = ?st
           and r = "([5, 1, 0, 1, 10, 0, 0, 1, 0, 80], None) ## sconst ([], Some EOF)"]
    by (simp add: NewRequest_def CommandConnect_def CommandBind_def CommandAssociate_def)
qed

subsection \<open>The request pipeline\<close>

lemma resolveDest_Inr:
  "resolveDest x s wr ctx st req = Inr (ctx', st') \<Longrightarrow>
     \<exists>a. deref (heap st) (RawDestAddr req) = Some a \<and>
       ((FQDN a = [] \<and> ctx' = ctx \<and> st' = st) \<or>
        (FQDN a \<noteq> [] \<and> (\<exists>addr. resolver s ctx (FQDN a) = Inr (ctx', addr) \<and>
             st' = \<lparr>heap = store (heap st) (RawDestAddr req) (a\<lparr>IP := addr\<rparr>),
                    trace = trace st @ [EvResolve (FQDN a)]\<rparr>)))"
  by (auto simp: resolveDest_def emit_def reply_no_addr Let_def
        split: option.splits sum.splits if_splits prod.splits)

lemma rewriteDest_trace:
  "rewriteDest s ctx st req = (ctx', st', req') \<Longrightarrow>
     trace st' = trace st \<or> trace st' = trace st @ [EvRewrite]"
  by (auto simp: rewriteDest_def emit_def Let_def split: option.splits prod.splits)

lemma prepare_trace:
  assumes "prepare x s wr st req = Inr (ctx, st', req')"
  shows "\<exists>evs. trace st' = trace st @ evs \<and> (\<forall>n a. EvDial n a \<notin> set evs)"
proof -
  from assms obtain c0 st0 where r: "resolveDest x s wr context_Background st req = Inr (c0, st0)"
    and w: "rewriteDest s c0 st0 req = (ctx, st', req')"
    by (auto simp: prepare_def split: sum.splits)
  from resolveDest_Inr[OF r] have "trace st0 = trace st \<or> (\<exists>f. trace st0 = trace st @ [EvResolve f])"
    by auto
  with rewriteDest_trace[OF w] show ?thesis by auto
qed

lemma deref_store_same:
  "deref h p = Some a \<Longrightarrow> deref (store h p v) p = Some v"
  by (auto simp: deref_def store_def split: option.splits if_splits)

text \<open>C6. When the pipeline reaches the authorization rule (resolution did not fail) and
  the rule denies the request, handleRequest writes the reply RuleFailure and returns an
  error: the error naming the blocked destination, or, if the reply could not be written,
  that write failure wrapped. Its trace holds no dial: what comes before the rule is
  resolution and rewriting only, and after it the one write.\<close>

theorem rule_denial:
  "prepare x s wr st req = Inr (ctx, st', req') \<and> \<not> snd (rules s ctx (heap st') req') \<longrightarrow>
     handleRequest x s e wr st req =
       Some (st'\<lparr>trace := trace st' @
               [EvAllow False,
                EvWrite (Bytes x ((Header req')\<lparr>Command := code x RepRuleFailure,
                   addrType := ATYPIPv4,
                   Address := (Address (Header req'))\<lparr>IP := [0, 0, 0, 0], Port := 0\<rparr>\<rparr>))]\<rparr>,
             Return (Some
               (case wr (Bytes x ((Header req')\<lparr>Command := code x RepRuleFailure,
                   addrType := ATYPIPv4,
                   Address := (Address (Header req'))\<lparr>IP := [0, 0, 0, 0], Port := 0\<rparr>\<rparr>)) of
                  Some err \<Rightarrow> FailedToSendReply (External err)
                | None \<Rightarrow> BlockedByRules (deref (heap st') (RawDestAddr req')))))
     \<and> (\<exists>evs. trace st' = trace st @ evs \<and> (\<forall>n a. EvDial n a \<notin> set evs))"
proof (intro impI conjI)
  assume a: "prepare x s wr st req = Inr (ctx, st', req') \<and> \<not> snd (rules s ctx (heap st') req')"
  then show "\<exists>evs. trace st' = trace st @ evs \<and> (\<forall>n a. EvDial n a \<notin> set evs)"
    using prepare_trace by blast
  from a show "handleRequest x s e wr st req =
       Some (st'\<lparr>trace := trace st' @
               [EvAllow False,
                EvWrite (Bytes x ((Header req')\<lparr>Command := code x RepRuleFailure,
                   addrType := ATYPIPv4,
                   Address := (Address (Header req'))\<lparr>IP := [0, 0, 0, 0], Port := 0\<rparr>\<rparr>))]\<rparr>,
             Return (Some
               (case wr (Bytes x ((Header req')\<lparr>Command := code x RepRuleFailure,
                   addrType := ATYPIPv4,
                   Address := (Address (Header req'))\<lparr>IP := [0, 0, 0, 0], Port := 0\<rparr>\<rparr>)) of
                  Some err \<Rightarrow> FailedToSendReply (External err)
                | None \<Rightarrow> BlockedByRules (deref (heap st') (RawDestAddr req')))))"
    by (auto simp: handleRequest_def checkRules_def reply_no_addr emit_def split: prod.splits option.splits)
qed

theorem rule_denial_witness:
  "handleRequest
       \<lparr>Bytes = (\<lambda>h. [Version h, Command h, Reserved h, addrType h]),
        code = (\<lambda>r. case r of RepSuccess \<Rightarrow> 0 | RepServerFailure \<Rightarrow> 1
                  | RepRuleFailure \<Rightarrow> 2 | RepNetworkUnreachable \<Rightarrow> 3
                  | RepHostUnreachable \<Rightarrow> 4 | RepConnectionRefused \<Rightarrow> 5
                  | RepCommandNotSupported \<Rightarrow> 7),
        AddrString = (\<lambda>a. ''10.0.0.1:80'')\<rparr>
       \<lparr>resolver = (\<lambda>c n. Inl ''no such host''),
        rewriter = None,
        rules = (\<lambda>c h r. (c, False)),
        dial = None,
        userConnectHandle = None, userBindHandle = None, userAssociateHandle = None\<rparr>
       \<lparr>net_Dial = (\<lambda>n a. Inl ''no route to host''), net_ListenUDP = Inl ''denied'',
        relayResult = None\<rparr>
       (\<lambda>b. None)
       \<lparr>heap = [\<lparr>FQDN = [], IP = [10, 0, 0, 1], Port = 80\<rparr>], trace = []\<rparr>
       \<lparr>Header = \<lparr>Version = 5, Command = 1, Reserved = 0, addrType = 1,
                         Address = \<lparr>FQDN = [], IP = [10, 0, 0, 1], Port = 80\<rparr>\<rparr>,
        AuthContext = None, LocalAddr = None, RemoteAddr = None, DestAddr = None,
        Reader = sconst ([], Some EOF), RawDestAddr = Some 0\<rparr>
     = Some (\<lparr>heap = [\<lparr>FQDN = [], IP = [10, 0, 0, 1], Port = 80\<rparr>],
              trace = [EvAllow False, EvWrite [5, 2, 0, 1]]\<rparr>,
             Return (Some (BlockedByRules (Some \<lparr>FQDN = [], IP = [10, 0, 0, 1], Port = 80\<rparr>))))"
proof -
  let ?x = "\<lparr>Bytes = (\<lambda>h. [Version h, Command h, Reserved h, addrType h]),
             code = (\<lambda>r. case r of RepSuccess \<Rightarrow> 0 | RepServerFailure \<Rightarrow> 1
                       | RepRuleFailure \<Rightarrow> 2 | RepNetworkUnreachable \<Rightarrow> 3
                       | RepHostUnreachable \<Rightarrow> 4 | RepConnectionRefused \<Rightarrow> 5
                       | RepCommandNotSupported \<Rightarrow> 7),
             AddrString = (\<lambda>a. ''10.0.0.1:80'')\<rparr>"
  let ?s = "\<lparr>resolver = (\<lambda>c n. Inl ''no such host''),
             rewriter = None,
             rules = (\<lambda>c h r. (c, False)),
             dial = None,
             userConnectHandle = None, userBindHandle = None, userAssociateHandle = None\<rparr>"
  let ?e = "\<lparr>net_Dial = (\<lambda>n a. Inl ''no route to host''), net_ListenUDP = Inl ''denied'',
             relayResult = None\<rparr>"
  let ?st = "\<lparr>heap = [\<lparr>FQDN = [], IP = [10, 0, 0, 1], Port = 80\<rparr>], trace = []\<rparr>"
  let ?req = "\<lparr>Header = \<lparr>Version = 5, Command = 1, Reserved = 0, addrType = 1,
                                Address = \<lparr>FQDN = [], IP = [10, 0, 0, 1], Port = 80\<rparr>\<rparr>,
               AuthContext = None, LocalAddr = None, RemoteAddr = None, DestAddr = None,
               Reader = sconst ([], Some EOF), RawDestAddr = Some 0\<rparr>"
  let ?req' = "\<lparr>Header = \<lparr>Version = 5, Command = 1, Reserved = 0, addrType = 1,
                                 Address = \<lparr>FQDN = [], IP = [10, 0, 0, 1], Port = 80\<rparr>\<rparr>,
                AuthContext = None, LocalAddr = None, RemoteAddr = None, DestAddr = Some 0,
                Reader = sconst ([], Some EOF), RawDestAddr = Some 0\<rparr>"
  show ?thesis
    using rule_denial
      [where x = ?x and s = ?s and wr = "\<lambda>b. None" and st = ?st and req = ?req and ctx = 0
         and st' = ?st and req' = ?req' and e = ?e]
    by (simp add: prepare_def resolveDest_def rewriteDest_def deref_def context_Background_def
          ATYPIPv4_def)
qed

text \<open>C2, as stated, fails: for a request with a FQDN whose resolution succeeds, the IP
  held in RawDestAddr when the rule and the handler see it is the resolved address, not
  the one NewRequest stored.\<close>

theorem RawDestAddr_mutated:
  "NewRequest
       (\<lambda>r. Inr (\<lparr>Version = 5, Command = 1, Reserved = 0, addrType = 3,
                          Address = \<lparr>FQDN = ''example.com'', IP = [], Port = 80\<rparr>\<rparr>, stl r))
       \<lparr>heap = [], trace = []\<rparr>
       (([5, 1, 0, 3, 11, 101, 120, 97, 109, 112, 108, 101, 46, 99, 111, 109, 0, 80], None)
          ## sconst ([], Some EOF))
     = (\<lparr>heap = [\<lparr>FQDN = ''example.com'', IP = [], Port = 80\<rparr>], trace = []\<rparr>,
        Inr \<lparr>Header = \<lparr>Version = 5, Command = 1, Reserved = 0, addrType = 3,
                              Address = \<lparr>FQDN = ''example.com'', IP = [], Port = 80\<rparr>\<rparr>,
             AuthContext = None, LocalAddr = None, RemoteAddr = None, DestAddr = None,
             Reader = sconst ([], Some EOF), RawDestAddr = Some 0\<rparr>)
   \<and> prepare
       \<lparr>Bytes = (\<lambda>h. [Version h, Command h, Reserved h, addrType h]),
        code = (\<lambda>r. case r of RepSuccess \<Rightarrow> 0 | RepServerFailure \<Rightarrow> 1
                  | RepRuleFailure \<Rightarrow> 2 | RepNetworkUnreachable \<Rightarrow> 3
                  | RepHostUnreachable \<Rightarrow> 4 | RepConnectionRefused \<Rightarrow> 5
                  | RepCommandNotSupported \<Rightarrow> 7),
        AddrString = (\<lambda>a. ''10.0.0.1:80'')\<rparr>
       \<lparr>resolver = (\<lambda>c n. Inr (c, [93, 184, 216, 34])),
        rewriter = None,
        rules = (\<lambda>c h r. (c, True)),
        dial = None,
        userConnectHandle = None, userBindHandle = None, userAssociateHandle = None\<rparr>
       (\<lambda>b. None)
       \<lparr>heap = [\<lparr>FQDN = ''example.com'', IP = [], Port = 80\<rparr>], trace = []\<rparr>
       \<lparr>Header = \<lparr>Version = 5, Command = 1, Reserved = 0, addrType = 3,
                         Address = \<lparr>FQDN = ''example.com'', IP = [], Port = 80\<rparr>\<rparr>,
        AuthContext = None, LocalAddr = None, RemoteAddr = None, DestAddr = None,
        Reader = sconst ([], Some EOF), RawDestAddr = Some 0\<rparr>
     = Inr (0,
            \<lparr>heap = [\<lparr>FQDN = ''example.com'', IP = [93, 184, 216, 34], Port = 80\<rparr>],
             trace = [EvResolve ''example.com'']\<rparr>,
            \<lparr>Header = \<lparr>Version = 5, Command = 1, Reserved = 0, addrType = 3,
                              Address = \<lparr>FQDN = ''example.com'', IP = [], Port = 80\<rparr>\<rparr>,
             AuthContext = None, LocalAddr = None, RemoteAddr = None, DestAddr = Some 0,
             Reader = sconst ([], Some EOF), RawDestAddr = Some 0\<rparr>)
   \<and> deref [\<lparr>FQDN = ''example.com'', IP = [93, 184, 216, 34], Port = 80\<rparr>] (Some 0)
       \<noteq> deref [\<lparr>FQDN = ''example.com'', IP = [], Port = 80\<rparr>] (Some 0)"
  by (simp add: NewRequest_def CommandConnect_def prepare_def resolveDest_def rewriteDest_def
        deref_def store_def emit_def context_Background_def)

text \<open>C2, amended. Up to the dispatch the pipeline never changes which cell RawDestAddr
  points to, nor the FQDN and port in it; the IP in it is unchanged when the FQDN is empty
  and is overwritten in place with the resolved address when the FQDN is not empty (given
  a rewriter that leaves that cell alone). DestAddr is set to the same pointer as
  RawDestAddr and, when a rewriter is configured, replaced by the pointer the rewriter
  returns; nothing else of the request changes.\<close>

theorem RawDestAddr_pipeline:
  "prepare x s wr st req = Inr (ctx, st', req')
   \<and> (\<forall>rw c h r. rewriter s = Some rw \<and> deref h (RawDestAddr r) \<noteq> None \<longrightarrow>
         deref (fst (snd (rw c h r))) (RawDestAddr r) = deref h (RawDestAddr r)) \<longrightarrow>
   (\<exists>a. deref (heap st) (RawDestAddr req) = Some a
      \<and> deref (heap st') (RawDestAddr req') =
          Some (if FQDN a = [] then a
                else case resolver s context_Background (FQDN a) of
                       Inr (c, addr) \<Rightarrow> a\<lparr>IP := addr\<rparr> | Inl err \<Rightarrow> a))
   \<and> RawDestAddr req' = RawDestAddr req
   \<and> (rewriter s = None \<longrightarrow> req' = req\<lparr>DestAddr := RawDestAddr req\<rparr>)
   \<and> (\<forall>rw. rewriter s = Some rw \<longrightarrow> (\<exists>c h p. req' = req\<lparr>DestAddr := p\<rparr>
          \<and> snd (snd (rw c h (req\<lparr>DestAddr := RawDestAddr req\<rparr>))) = p))"
proof (intro impI)
  assume a: "prepare x s wr st req = Inr (ctx, st', req')
   \<and> (\<forall>rw c h r. rewriter s = Some rw \<and> deref h (RawDestAddr r) \<noteq> None \<longrightarrow>
         deref (fst (snd (rw c h r))) (RawDestAddr r) = deref h (RawDestAddr r))"
  then obtain c0 st0 where r: "resolveDest x s wr context_Background st req = Inr (c0, st0)"
    and w: "rewriteDest s c0 st0 req = (ctx, st', req')"
    by (auto simp: prepare_def split: sum.splits)
  from resolveDest_Inr[OF r] obtain d where d: "deref (heap st) (RawDestAddr req) = Some d"
    and alt: "(FQDN d = [] \<and> st0 = st) \<or>
        (FQDN d \<noteq> [] \<and> (\<exists>addr. resolver s context_Background (FQDN d) = Inr (c0, addr) \<and>
             st0 = \<lparr>heap = store (heap st) (RawDestAddr req) (d\<lparr>IP := addr\<rparr>),
                    trace = trace st @ [EvResolve (FQDN d)]\<rparr>))"
    by blast
  have d2: "deref (heap st0) (RawDestAddr req) =
          Some (if FQDN d = [] then d
                else case resolver s context_Background (FQDN d) of
                       Inr (c, addr) \<Rightarrow> d\<lparr>IP := addr\<rparr> | Inl err \<Rightarrow> d)"
    using alt d by (auto simp: deref_store_same)
  have p: "RawDestAddr req' = RawDestAddr req"
    using w by (auto simp: rewriteDest_def Let_def split: option.splits prod.splits)
  have "deref (heap st') (RawDestAddr req) = deref (heap st0) (RawDestAddr req)"
  proof (cases "rewriter s")
    case None
    then show ?thesis using w by (auto simp: rewriteDest_def Let_def)
  next
    case (Some rw)
    from d2 have "deref (heap st0) (RawDestAddr (req\<lparr>DestAddr := RawDestAddr req\<rparr>)) \<noteq> None"
      by simp
    with a Some have "deref (fst (snd (rw c0 (heap st0) (req\<lparr>DestAddr := RawDestAddr req\<rparr>))))
          (RawDestAddr (req\<lparr>DestAddr := RawDestAddr req\<rparr>))
       = deref (heap st0) (RawDestAddr (req\<lparr>DestAddr := RawDestAddr req\<rparr>))"
      by blast
    with Some w show ?thesis
      by (auto simp: rewriteDest_def Let_def emit_def split: prod.splits)
  qed
  with d d2 p have one: "\<exists>a. deref (heap st) (RawDestAddr req) = Some a
      \<and> deref (heap st') (RawDestAddr req') =
          Some (if FQDN a = [] then a
                else case resolver s context_Background (FQDN a) of
                       Inr (c, addr) \<Rightarrow> a\<lparr>IP := addr\<rparr> | Inl err \<Rightarrow> a)"
    by auto
  have three: "rewriter s = None \<longrightarrow> req' = req\<lparr>DestAddr := RawDestAddr req\<rparr>"
    using w by (auto simp: rewriteDest_def Let_def)
  have four: "\<forall>rw. rewriter s = Some rw \<longrightarrow> (\<exists>c h p. req' = req\<lparr>DestAddr := p\<rparr>
          \<and> snd (snd (rw c h (req\<lparr>DestAddr := RawDestAddr req\<rparr>))) = p)"
    using w by (auto simp: rewriteDest_def Let_def split: prod.splits) (metis snd_conv)
  from one p three four show "(\<exists>a. deref (heap st) (RawDestAddr req) = Some a
      \<and> deref (heap st') (RawDestAddr req') =
          Some (if FQDN a = [] then a
                else case resolver s context_Background (FQDN a) of
                       Inr (c, addr) \<Rightarrow> a\<lparr>IP := addr\<rparr> | Inl err \<Rightarrow> a))
   \<and> RawDestAddr req' = RawDestAddr req
   \<and> (rewriter s = None \<longrightarrow> req' = req\<lparr>DestAddr := RawDestAddr req\<rparr>)
   \<and> (\<forall>rw. rewriter s = Some rw \<longrightarrow> (\<exists>c h p. req' = req\<lparr>DestAddr := p\<rparr>
          \<and> snd (snd (rw c h (req\<lparr>DestAddr := RawDestAddr req\<rparr>))) = p))"
    by blast
qed

theorem RawDestAddr_pipeline_witness:
  "prepare
       \<lparr>Bytes = (\<lambda>h. [Version h, Command h, Reserved h, addrType h]),
        code = (\<lambda>r. case r of RepSuccess \<Rightarrow> 0 | RepServerFailure \<Rightarrow> 1
                  | RepRuleFailure \<Rightarrow> 2 | RepNetworkUnreachable \<Rightarrow> 3
                  | RepHostUnreachable \<Rightarrow> 4 | RepConnectionRefused \<Rightarrow> 5
                  | RepCommandNotSupported \<Rightarrow> 7),
        AddrString = (\<lambda>a. ''10.0.0.1:80'')\<rparr>
       \<lparr>resolver = (\<lambda>c n. Inr (c, [93, 184, 216, 34])),
        rewriter = Some (\<lambda>c h r. (c, h @ [\<lparr>FQDN = [], IP = [127, 0, 0, 1], Port = 8080\<rparr>],
                                Some (length h))),
        rules = (\<lambda>c h r. (c, True)),
        dial = None,
        userConnectHandle = None, userBindHandle = None, userAssociateHandle = None\<rparr>
       (\<lambda>b. None)
       \<lparr>heap = [\<lparr>FQDN = ''example.com'', IP = [], Port = 80\<rparr>], trace = []\<rparr>
       \<lparr>Header = \<lparr>Version = 5, Command = 1, Reserved = 0, addrType = 3,
                         Address = \<lparr>FQDN = ''example.com'', IP = [], Port = 80\<rparr>\<rparr>,
        AuthContext = None, LocalAddr = None, RemoteAddr = None, DestAddr = None,
        Reader = sconst ([], Some EOF), RawDestAddr = Some 0\<rparr>
     = Inr (0,
            \<lparr>heap = [\<lparr>FQDN = ''example.com'', IP = [93, 184, 216, 34], Port = 80\<rparr>,
                     \<lparr>FQDN = [], IP = [127, 0, 0, 1], Port = 8080\<rparr>],
             trace = [EvResolve ''example.com'', EvRewrite]\<rparr>,
            \<lparr>Header = \<lparr>Version = 5, Command = 1, Reserved = 0, addrType = 3,
                              Address = \<lparr>FQDN = ''example.com'', IP = [], Port = 80\<rparr>\<rparr>,
             AuthContext = None, LocalAddr = None, RemoteAddr = None, DestAddr = Some 1,
             Reader = sconst ([], Some EOF), RawDestAddr = Some 0\<rparr>)
   \<and> deref [\<lparr>FQDN = ''example.com'', IP = [93, 184, 216, 34], Port = 80\<rparr>,
             \<lparr>FQDN = [], IP = [127, 0, 0, 1], Port = 8080\<rparr>] (Some 0)
       = Some \<lparr>FQDN = ''example.com'', IP = [93, 184, 216, 34], Port = 80\<rparr>"
proof -
  let ?x = "\<lparr>Bytes = (\<lambda>h. [Version h, Command h, Reserved h, addrType h]),
             code = (\<lambda>r. case r of RepSuccess \<Rightarrow> 0 | RepServerFailure \<Rightarrow> 1
                       | RepRuleFailure \<Rightarrow> 2 | RepNetworkUnreachable \<Rightarrow> 3
                       | RepHostUnreachable \<Rightarrow> 4 | RepConnectionRefused \<Rightarrow> 5
                       | RepCommandNotSupported \<Rightarrow> 7),
             AddrString = (\<lambda>a. ''10.0.0.1:80'')\<rparr>"
  let ?s = "\<lparr>resolver = (\<lambda>c n. Inr (c, [93, 184, 216, 34])),
             rewriter = Some (\<lambda>c h r. (c, h @ [\<lparr>FQDN = [], IP = [127, 0, 0, 1], Port = 8080\<rparr>],
                                     Some (length h))),
             rules = (\<lambda>c h r. (c, True)),
             dial = None,
             userConnectHandle = None, userBindHandle = None, userAssociateHandle = None\<rparr>"
  let ?st = "\<lparr>heap = [\<lparr>FQDN = ''example.com'', IP = [], Port = 80\<rparr>], trace = []\<rparr>"
  let ?st' = "\<lparr>heap = [\<lparr>FQDN = ''example.com'', IP = [93, 184, 216, 34], Port = 80\<rparr>,
                        \<lparr>FQDN = [], IP = [127, 0, 0, 1], Port = 8080\<rparr>],
                trace = [EvResolve ''example.com'', EvRewrite]\<rparr>"
  let ?req = "\<lparr>Header = \<lparr>Version = 5, Command = 1, Reserved = 0, addrType = 3,
                                Address = \<lparr>FQDN = ''example.com'', IP = [], Port = 80\<rparr>\<rparr>,
               AuthContext = None, LocalAddr = None, RemoteAddr = None, DestAddr = None,
               Reader = sconst ([], Some EOF), RawDestAddr = Some 0\<rparr>"
  let ?req' = "\<lparr>Header = \<lparr>Version = 5, Command = 1, Reserved = 0, addrType = 3,
                                 Address = \<lparr>FQDN = ''example.com'', IP = [], Port = 80\<rparr>\<rparr>,
                AuthContext = None, LocalAddr = None, RemoteAddr = None, DestAddr = Some 1,
                Reader = sconst ([], Some EOF), RawDestAddr = Some 0\<rparr>"
  have hyp: "\<forall>rw c h r. rewriter ?s = Some rw \<and> deref h (RawDestAddr r) \<noteq> None \<longrightarrow>
               deref (fst (snd (rw c h r))) (RawDestAddr r) = deref h (RawDestAddr r)"
    by (auto simp: deref_def nth_append split: option.splits)
  have prep: "prepare ?x ?s (\<lambda>b. None) ?st ?req = Inr (0, ?st', ?req')"
    by (simp add: prepare_def resolveDest_def rewriteDest_def deref_def store_def emit_def
          context_Background_def)
  from RawDestAddr_pipeline
    [where x = ?x and s = ?s and wr = "\<lambda>b. None" and st = ?st and req = ?req and ctx = 0
       and st' = ?st' and req' = ?req', THEN mp, OF conjI [OF prep hyp]]
  show ?thesis
    using prep by (simp add: deref_def)
qed

subsection \<open>The client-to-destination loop of handleAssociate\<close>

lemma forwardStep_Stopped_iff:
  "snd (forwardStep P f i) = Stopped \<longleftrightarrow>
     (\<exists>err. fst i = ReadFailed err \<and> Contains err ''use of closed network connection'')
     \<or> (\<exists>b src pk err. fst i = Datagram b src \<and> P b = Inr pk \<and> snd i = Some err)"
  by (cases i) (auto simp: forwardStep_def Let_def split: bind_read.splits sum.splits prod.splits option.splits)

lemma forwardLoop_Stopped_iff:
  "snd (forwardLoop P f is) = Stopped \<longleftrightarrow> (\<exists>i \<in> set is. snd (forwardStep P f i) = Stopped)"
proof (induction "is" arbitrary: f)
  case Nil
  then show ?case by simp
next
  case (Cons i "is")
  have indep: "snd (forwardStep P g j) = Stopped \<longleftrightarrow> snd (forwardStep P f j) = Stopped" for g j
    by (simp add: forwardStep_Stopped_iff)
  show ?case
  proof (cases "forwardStep P f i")
    case (Pair f' s)
    then show ?thesis
      using Cons.IH[of f'] indep by (cases s) auto
  qed
qed

text \<open>C7. In the client-to-destination loop a datagram that does not parse as a relay frame
  changes nothing and the loop goes on with the next datagram. The loop has stopped after
  a sequence of socket answers exactly when one of them is a read error whose text
  contains "use of closed network connection", or a datagram that parsed and whose write
  to the destination socket failed.\<close>

theorem forward_malformed_skipped:
  "(P b = Inl perr \<longrightarrow>
      forwardStep P f (Datagram b src, wres) = (f, Running)
      \<and> forwardLoop P f ((Datagram b src, wres) # rest) = forwardLoop P f rest)
   \<and> (snd (forwardLoop P f ins) = Stopped \<longleftrightarrow>
        (\<exists>i \<in> set ins.
           (\<exists>err. fst i = ReadFailed err \<and> Contains err ''use of closed network connection'')
           \<or> (\<exists>d a pk err. fst i = Datagram d a \<and> P d = Inr pk \<and> snd i = Some err)))"
  by (auto simp: forwardLoop_Stopped_iff forwardStep_Stopped_iff) (auto simp: forwardStep_def)

lemma forwardStep_conns:
  "forwardStep P f i = (f', s) \<Longrightarrow>
     (\<forall>k. conns f k \<noteq> None \<longrightarrow> conns f' k = conns f k)
     \<and> (set (spawned f) = dom (conns f) \<longrightarrow> set (spawned f') = dom (conns f'))
     \<and> (set (spawned f) = dom (conns f) \<and> distinct (spawned f) \<longrightarrow> distinct (spawned f'))"
  by (cases i) (auto simp: forwardStep_def Let_def LoadOrStore_def split: bind_read.splits sum.splits prod.splits option.splits if_splits)

lemma forwardStep_spawn:
  "spawned (fst (forwardStep P f i)) =
     (case fst i of
        Datagram b src \<Rightarrow>
          (case P b of Inr pk \<Rightarrow> if conns f src = None then spawned f @ [src] else spawned f
           | Inl err \<Rightarrow> spawned f)
      | ReadFailed err \<Rightarrow> spawned f)"
  by (cases i) (auto simp: forwardStep_def Let_def LoadOrStore_def split: bind_read.splits sum.splits prod.splits option.splits if_splits)

lemma forwardLoop_dom:
  "forwardLoop P f is = (f', s) \<Longrightarrow> set (spawned f) = dom (conns f) \<Longrightarrow>
     set (spawned f') = dom (conns f') \<and> (\<forall>k. conns f k \<noteq> None \<longrightarrow> conns f' k = conns f k)"
proof (induction "is" arbitrary: f)
  case Nil
  then show ?case by simp
next
  case (Cons i "is")
  obtain g t where st: "forwardStep P f i = (g, t)" by (cases "forwardStep P f i")
  from forwardStep_conns[OF st] Cons.prems
  have g: "set (spawned g) = dom (conns g)"
    "\<forall>k. conns f k \<noteq> None \<longrightarrow> conns g k = conns f k" by auto
  show ?case
  proof (cases t)
    case Running
    with st Cons.prems have "forwardLoop P g is = (f', s)" by simp
    from Cons.IH[OF this g(1)] g(2) show ?thesis by auto
  next
    case Stopped
    with st Cons.prems have "f' = g" by simp
    with g show ?thesis by simp
  qed
qed

lemma forwardLoop_distinct:
  "forwardLoop P f is = (f', s) \<Longrightarrow> set (spawned f) = dom (conns f) \<Longrightarrow> distinct (spawned f) \<Longrightarrow>
     distinct (spawned f')"
proof (induction "is" arbitrary: f)
  case Nil
  then show ?case by simp
next
  case (Cons i "is")
  obtain g t where st: "forwardStep P f i = (g, t)" by (cases "forwardStep P f i")
  from forwardStep_conns[OF st] Cons.prems
  have g: "set (spawned g) = dom (conns g)" "distinct (spawned g)" by auto
  show ?case
  proof (cases t)
    case Running
    with st Cons.prems have "forwardLoop P g is = (f', s)" by simp
    from Cons.IH[OF this g] show ?thesis .
  next
    case Stopped
    with st Cons.prems have "f' = g" by simp
    with g show ?thesis by simp
  qed
qed


lemma srcs_Cons:
  "{src. \<exists>b w pk. (Datagram b src, w) \<in> set (i # is) \<and> P b = Inr pk}
     = {src. \<exists>b w pk. i = (Datagram b src, w) \<and> P b = Inr pk}
       \<union> {src. \<exists>b w pk. (Datagram b src, w) \<in> set is \<and> P b = Inr pk}"
  by (rule set_eqI) (simp, blast)

lemma forwardStep_sources:
  "set (spawned (fst (forwardStep P f i)))
     \<subseteq> set (spawned f) \<union> {src. \<exists>b w pk. i = (Datagram b src, w) \<and> P b = Inr pk}"
proof (cases i)
  case (Pair r w)
  then show ?thesis
    by (cases r) (auto simp: forwardStep_spawn split: sum.splits)
qed

lemma forwardStep_sources_in:
  "set (spawned f) = dom (conns f) \<Longrightarrow>
   {src. \<exists>b w pk. i = (Datagram b src, w) \<and> P b = Inr pk}
     \<subseteq> set (spawned (fst (forwardStep P f i)))"
proof (cases i)
  case (Pair r w)
  assume "set (spawned f) = dom (conns f)"
  with Pair show ?thesis
    by (cases r) (auto simp: forwardStep_spawn split: sum.splits)
qed

lemma forwardLoop_sources:
  "forwardLoop P f is = (f', s) \<Longrightarrow>
     set (spawned f') \<subseteq> set (spawned f) \<union> {src. \<exists>b w pk. (Datagram b src, w) \<in> set is \<and> P b = Inr pk}"
proof (induction "is" arbitrary: f)
  case Nil
  then show ?case by simp
next
  case (Cons i "is")
  obtain g t where st: "forwardStep P f i = (g, t)" by (cases "forwardStep P f i")
  have g: "set (spawned g) \<subseteq> set (spawned f) \<union> {src. \<exists>b w pk. i = (Datagram b src, w) \<and> P b = Inr pk}"
    using forwardStep_sources[of P f i] st by simp
  show ?case
  proof (cases t)
    case Running
    with st Cons.prems have "forwardLoop P g is = (f', s)" by simp
    from Cons.IH[OF this] g show ?thesis unfolding srcs_Cons by blast
  next
    case Stopped
    with st Cons.prems have "f' = g" by simp
    with g show ?thesis unfolding srcs_Cons by blast
  qed
qed

lemma forwardLoop_sources_running:
  "forwardLoop P f is = (f', Running) \<Longrightarrow> set (spawned f) = dom (conns f) \<Longrightarrow>
     {src. \<exists>b w pk. (Datagram b src, w) \<in> set is \<and> P b = Inr pk} \<subseteq> set (spawned f')"
proof (induction "is" arbitrary: f)
  case Nil
  then show ?case by simp
next
  case (Cons i "is")
  obtain g t where st: "forwardStep P f i = (g, t)" by (cases "forwardStep P f i")
  from st Cons.prems(1) have l: "forwardLoop P g is = (f', Running)"
    by (cases t) simp_all
  from forwardStep_conns[OF st] Cons.prems have inv: "set (spawned g) = dom (conns g)" by simp
  have here: "{src. \<exists>b w pk. i = (Datagram b src, w) \<and> P b = Inr pk} \<subseteq> set (spawned g)"
    using forwardStep_sources_in[OF Cons.prems(2), of i P] st by simp
  have "dom (conns g) \<subseteq> dom (conns f')"
    using forwardLoop_dom[OF l inv] by (auto simp: dom_def)
  with forwardLoop_dom[OF l inv] inv have mono: "set (spawned g) \<subseteq> set (spawned f')"
    by simp
  from Cons.IH[OF l inv] here mono show ?case unfolding srcs_Cons by blast
qed

text \<open>C3, amended. One turn of the loop submits a return-path task exactly when the datagram
  has parsed and its source address's string form is not yet in the session table, and
  it never removes an entry. So, from the empty table, after any sequence of socket
  answers no address has two tasks, the addresses with a task are the keys of the table,
  each of them is the source of a datagram that parsed, and while the loop has not stopped
  they are all the sources of datagrams that parsed.\<close>

theorem return_path_spawn:
  "spawned (fst (forwardStep P f i)) =
     (case fst i of
        Datagram b src \<Rightarrow>
          (case P b of
             Inr pk \<Rightarrow> if src \<notin> dom (conns f) then spawned f @ [src] else spawned f
           | Inl perr \<Rightarrow> spawned f)
      | ReadFailed err \<Rightarrow> spawned f)
   \<and> dom (conns f) \<subseteq> dom (conns (fst (forwardStep P f i)))
   \<and> distinct (spawned (fst (forwardLoop P forwardInit ins)))
   \<and> set (spawned (fst (forwardLoop P forwardInit ins)))
       = dom (conns (fst (forwardLoop P forwardInit ins)))
   \<and> set (spawned (fst (forwardLoop P forwardInit ins)))
       \<subseteq> {src. \<exists>b w pk. (Datagram b src, w) \<in> set ins \<and> P b = Inr pk}
   \<and> (snd (forwardLoop P forwardInit ins) = Running \<longrightarrow>
        set (spawned (fst (forwardLoop P forwardInit ins)))
          = {src. \<exists>b w pk. (Datagram b src, w) \<in> set ins \<and> P b = Inr pk})"
proof -
  obtain f' s where l: "forwardLoop P forwardInit ins = (f', s)"
    by (cases "forwardLoop P forwardInit ins")
  obtain g t where st: "forwardStep P f i = (g, t)" by (cases "forwardStep P f i")
  have init: "set (spawned forwardInit) = dom (conns forwardInit)" "distinct (spawned forwardInit)"
    "spawned forwardInit = []"
    by (simp_all add: forwardInit_def)
  have a: "spawned (fst (forwardStep P f i)) =
     (case fst i of
        Datagram b src \<Rightarrow>
          (case P b of
             Inr pk \<Rightarrow> if src \<notin> dom (conns f) then spawned f @ [src] else spawned f
           | Inl perr \<Rightarrow> spawned f)
      | ReadFailed err \<Rightarrow> spawned f)"
    by (simp add: forwardStep_spawn dom_def split: bind_read.splits sum.splits)
  have b: "dom (conns f) \<subseteq> dom (conns (fst (forwardStep P f i)))"
    using forwardStep_conns[OF st] st by (auto simp: dom_def)
  have c: "distinct (spawned f')" using forwardLoop_distinct[OF l init(1,2)] .
  have d: "set (spawned f') = dom (conns f')" using forwardLoop_dom[OF l init(1)] by simp
  have e: "set (spawned f') \<subseteq> {src. \<exists>b w pk. (Datagram b src, w) \<in> set ins \<and> P b = Inr pk}"
    using forwardLoop_sources[OF l] init(3) by simp
  have f: "s = Running \<longrightarrow> set (spawned f')
          = {src. \<exists>b w pk. (Datagram b src, w) \<in> set ins \<and> P b = Inr pk}"
    using forwardLoop_sources_running[OF _ init(1), of P ins f'] l e by auto
  from a b c d e f l show ?thesis by simp
qed

text \<open>C3, as stated, fails: a source address whose first datagram is too short to parse has
  been observed at the bind socket and has no return-path task; its task is submitted on
  its second datagram, the first that parses.\<close>

theorem return_path_first_datagram:
  "forwardLoop Packet_Parse forwardInit [(Datagram [0, 0, 0] ''192.0.2.7:4000'', None)]
     = (forwardInit, Running)
   \<and> spawned forwardInit = []
   \<and> spawned (fst (forwardLoop Packet_Parse forwardInit
        [(Datagram [0, 0, 0] ''192.0.2.7:4000'', None),
         (Datagram [0, 0, 0, 1, 8, 8, 8, 8, 0, 53, 7] ''192.0.2.7:4000'', None)]))
     = [''192.0.2.7:4000'']"
  by (simp add: forwardStep_def Packet_Parse_def mkPacket_def forwardInit_def LoadOrStore_def
        ATYPIPv4_def)

theorem forward_malformed_skipped_witness:
  "forwardStep Packet_Parse forwardInit (Datagram [0, 0, 0] ''192.0.2.7:4000'', None)
     = (forwardInit, Running)
   \<and> forwardLoop Packet_Parse forwardInit
        [(Datagram [0, 0, 0] ''192.0.2.7:4000'', None),
         (Datagram [0, 0, 0, 1, 8, 8, 8, 8, 0, 53, 7] ''192.0.2.7:4000'', None)]
     = (\<lparr>conns = [''192.0.2.7:4000'' \<mapsto> ()], spawned = [''192.0.2.7:4000''], sent = [[7]]\<rparr>, Running)
   \<and> snd (forwardLoop Packet_Parse forwardInit
        [(Datagram [0, 0, 0] ''192.0.2.7:4000'', None),
         (ReadFailed ''use of closed network connection'', None)])
     = Stopped"
proof -
  let ?bad = "(Datagram [0, 0, 0] ''192.0.2.7:4000'', None :: errmsg option)"
  let ?good = "(Datagram [0, 0, 0, 1, 8, 8, 8, 8, 0, 53, 7] ''192.0.2.7:4000'', None :: errmsg option)"
  let ?closed = "(ReadFailed ''use of closed network connection'', None :: errmsg option)"
  have p: "Packet_Parse [0, 0, 0] = Inl ''short packet''"
    by (simp add: Packet_Parse_def)
  note T = forward_malformed_skipped [where P = Packet_Parse and b = "[0, 0, 0]"
      and perr = "''short packet''" and f = forwardInit and src = "''192.0.2.7:4000''" and wres = None]
  have s: "forwardStep Packet_Parse forwardInit ?bad = (forwardInit, Running)"
    using T [where rest = "[]", THEN conjunct1, THEN mp, OF p] by simp
  have l: "forwardLoop Packet_Parse forwardInit [?bad, ?good]
      = (\<lparr>conns = [''192.0.2.7:4000'' \<mapsto> ()], spawned = [''192.0.2.7:4000''], sent = [[7]]\<rparr>, Running)"
    using T [where rest = "[?good]", THEN conjunct1, THEN mp, OF p]
    by (simp add: forwardStep_def Packet_Parse_def mkPacket_def forwardInit_def LoadOrStore_def
          ATYPIPv4_def)
  have e: "\<exists>i \<in> set [?bad, ?closed].
         (\<exists>err. fst i = ReadFailed err \<and> Contains err ''use of closed network connection'')
         \<or> (\<exists>d a pk err. fst i = Datagram d a \<and> Packet_Parse d = Inr pk \<and> snd i = Some err)"
    by simp
  have t: "snd (forwardLoop Packet_Parse forwardInit [?bad, ?closed]) = Stopped"
    using forward_malformed_skipped [where P = Packet_Parse and f = forwardInit
        and ins = "[?bad, ?closed]", THEN conjunct2, THEN iffD2, OF e] .
  from s l t show ?thesis by (intro conjI)
qed

theorem return_path_spawn_witness:
  "forwardLoop Packet_Parse forwardInit
       [(Datagram [0, 0, 0, 1, 8, 8, 8, 8, 0, 53, 7] ''192.0.2.7:4000'', None),
        (Datagram [0, 0, 0] ''192.0.2.9:5000'', None),
        (Datagram [0, 0, 0, 1, 8, 8, 8, 8, 0, 53, 7] ''192.0.2.7:4000'', None),
        (Datagram [0, 0, 0, 1, 8, 8, 8, 8, 0, 53, 7] ''192.0.2.9:5000'', None)]
     = (\<lparr>conns = [''192.0.2.7:4000'' \<mapsto> (), ''192.0.2.9:5000'' \<mapsto> ()],
         spawned = [''192.0.2.7:4000'', ''192.0.2.9:5000''], sent = [[7], [7], [7]]\<rparr>,
        Running)
   \<and> set [''192.0.2.7:4000'', ''192.0.2.9:5000'']
       = {src. \<exists>b (w :: errmsg option) pk.
            (Datagram b src, w)
               \<in> set [(Datagram [0, 0, 0, 1, 8, 8, 8, 8, 0, 53, 7] ''192.0.2.7:4000'', None),
                      (Datagram [0, 0, 0] ''192.0.2.9:5000'', None),
                      (Datagram [0, 0, 0, 1, 8, 8, 8, 8, 0, 53, 7] ''192.0.2.7:4000'', None),
                      (Datagram [0, 0, 0, 1, 8, 8, 8, 8, 0, 53, 7] ''192.0.2.9:5000'', None)]
            \<and> Packet_Parse b = Inr pk}"
proof -
  let ?ins = "[(Datagram [0, 0, 0, 1, 8, 8, 8, 8, 0, 53, 7] ''192.0.2.7:4000'', None :: errmsg option),
               (Datagram [0, 0, 0] ''192.0.2.9:5000'', None),
               (Datagram [0, 0, 0, 1, 8, 8, 8, 8, 0, 53, 7] ''192.0.2.7:4000'', None),
               (Datagram [0, 0, 0, 1, 8, 8, 8, 8, 0, 53, 7] ''192.0.2.9:5000'', None)]"
  have l: "forwardLoop Packet_Parse forwardInit ?ins
        = (\<lparr>conns = [''192.0.2.7:4000'' \<mapsto> (), ''192.0.2.9:5000'' \<mapsto> ()],
            spawned = [''192.0.2.7:4000'', ''192.0.2.9:5000''], sent = [[7], [7], [7]]\<rparr>,
           Running)"
    by (simp add: forwardStep_def Packet_Parse_def mkPacket_def forwardInit_def LoadOrStore_def
          ATYPIPv4_def)
  have r: "snd (forwardLoop Packet_Parse forwardInit ?ins) = Running"
    by (simp only: l snd_conv)
  have sp: "spawned (fst (forwardLoop Packet_Parse forwardInit ?ins)) = [''192.0.2.7:4000'', ''192.0.2.9:5000'']"
    unfolding l by simp
  from return_path_spawn [where P = Packet_Parse and f = forwardInit
      and i = "(Datagram [0, 0, 0, 1, 8, 8, 8, 8, 0, 53, 7] ''192.0.2.7:4000'', None)" and ins = ?ins,
      THEN conjunct2, THEN conjunct2, THEN conjunct2, THEN conjunct2, THEN conjunct2,
      THEN mp, OF r]
  have "set [''192.0.2.7:4000'', ''192.0.2.9:5000'']
       = {src. \<exists>b (w :: errmsg option) pk. (Datagram b src, w) \<in> set ?ins
                 \<and> Packet_Parse b = Inr pk}"
    unfolding sp .
  with l show ?thesis by (intro conjI)
qed

subsection \<open>The foreground loop of handleAssociate\<close>







subsection \<open>The relay primitive\<close>















end
